theory Spec2Isabelle
  imports Complex_Main
begin

section \<open>Data model\<close>

text \<open>
  The program (\<^verbatim>\<open>Arter_i_avverkning.py\<close>) works on pandas / geopandas tables.
  A table cell is a number, a text, a timestamp or the missing value (NaN / NaT / None).
  Only the year of a timestamp is ever read by the program; month and day are kept so
  that a cell still is a date.
\<close>

datatype timestamp = Timestamp (year: int) (month: nat) (day: nat)

datatype cell = Num real | Str string | Stamp timestamp | NaN

text \<open>A row maps column names to cells, in column order; an absent column reads as NaN
  (what \<^verbatim>\<open>pd.concat\<close> fills in for a column that a part does not have).\<close>

type_synonym row = "(string \<times> cell) list"

definition get_cell :: "row \<Rightarrow> string \<Rightarrow> cell" where
  "get_cell r c = (case map_of r c of Some v \<Rightarrow> v | None \<Rightarrow> NaN)"

fun put_cell :: "string \<Rightarrow> cell \<Rightarrow> row \<Rightarrow> row" where
  "put_cell c v [] = [(c, v)]"
| "put_cell c v ((k, w) # r) = (if k = c then (c, v) # r else (k, w) # put_cell c v r)"

definition upd_cell :: "string \<Rightarrow> (cell \<Rightarrow> cell) \<Rightarrow> row \<Rightarrow> row" where
  "upd_cell c f r = put_cell c (f (get_cell r c)) r"

text \<open>A row of a GeoDataFrame: its index label, its attribute columns and its geometry.
  The geometry type \<open>'g\<close> is that of the geometry library (shapely), which is not part of
  the program.\<close>

record 'g grow =
  idx :: nat
  attrs :: row
  geometry :: 'g

record 'g gframe =
  columns :: "string list"
  crs :: string
  grows :: "'g grow list"

type_synonym bbox = "real \<times> real \<times> real \<times> real"

text \<open>
  The operations of pandas, geopandas and shapely that the program calls. They are
  parameters of the model: the program is verified for every library behaviour, and a
  geometric fact, where a claim needs one, is a stated hypothesis.
\<close>

record 'g geolib =
  points_from_xy :: "cell \<Rightarrow> cell \<Rightarrow> 'g"
  buffer :: "'g \<Rightarrow> real \<Rightarrow> 'g"
  convex_hull :: "'g \<Rightarrow> 'g"
  union_all :: "'g list \<Rightarrow> 'g"
  intersects :: "'g \<Rightarrow> 'g \<Rightarrow> bool"
  geom_within :: "'g \<Rightarrow> 'g \<Rightarrow> bool"
  bbox_hit :: "bbox \<Rightarrow> 'g \<Rightarrow> bool"
  to_crs :: "string \<Rightarrow> string \<Rightarrow> 'g \<Rightarrow> 'g"
  total_bounds :: "'g list \<Rightarrow> bbox"
  parse_numeric :: "cell \<Rightarrow> real option"
  parse_datetime :: "cell \<Rightarrow> timestamp option"
  str_of :: "cell \<Rightarrow> string"

datatype error =
    SystemExit
  | KeyError string
  | ValueError
  | TypeError
  | ZeroDivisionError
  | ReadError string
  | WriteError string

section \<open>The spatial matcher: \<^verbatim>\<open>run_spatial_analysis\<close>\<close>

datatype status = Inuti | Nara50m

text \<open>One row of \<^verbatim>\<open>gpd.sjoin(left, right, how="inner")\<close>: the index label, the
  columns and the geometry of the left row, the index label of the right row in
  \<^verbatim>\<open>index_right\<close>, and the right row's columns.\<close>

record 'g joined =
  j_idx :: nat
  j_left :: row
  j_geometry :: 'g
  j_index_right :: nat
  j_right :: row

record 'g match =
  m_idx :: nat
  m_left :: row
  m_geometry :: 'g
  index_right :: nat
  m_right :: row
  Status_Analys :: status

record 'g layer_result =
  matches :: "'g match list"
  total_relevant_count :: nat

definition mk_joined :: "'g grow \<Rightarrow> 'g grow \<Rightarrow> 'g joined" where
  "mk_joined l r =
     \<lparr>j_idx = idx l, j_left = attrs l, j_geometry = geometry l,
      j_index_right = idx r, j_right = attrs r\<rparr>"

text \<open>The inner spatial join: every pair of a left and a right row whose geometries
  satisfy the predicate, left rows in order, and for one left row the right rows in order
  (the library sorts the pairs of the \<^verbatim>\<open>within\<close> join this way; for \<^verbatim>\<open>intersects\<close>
  it leaves the order of the right rows of one left row open, and no property below
  depends on it). The result carries the index labels of the left frame.\<close>

definition sjoin :: "('g \<Rightarrow> 'g \<Rightarrow> bool) \<Rightarrow> 'g grow list \<Rightarrow> 'g grow list \<Rightarrow> 'g joined list" where
  "sjoin pred left right =
     concat (map (\<lambda>l. map (mk_joined l) (filter (\<lambda>r. pred (geometry l) (geometry r)) right)) left)"

text \<open>\<^verbatim>\<open>df['Status_Analys'] = s\<close> on a join result.\<close>

definition set_status :: "status \<Rightarrow> 'g joined \<Rightarrow> 'g match" where
  "set_status s j =
     \<lparr>m_idx = j_idx j, m_left = j_left j, m_geometry = j_geometry j,
      index_right = j_index_right j, m_right = j_right j, Status_Analys = s\<rparr>"

text \<open>\<^verbatim>\<open>combined[~combined.index.duplicated(keep='first')]\<close>: a row is dropped when
  its index label has occurred before.\<close>

fun keep_first :: "nat list \<Rightarrow> 'g match list \<Rightarrow> 'g match list" where
  "keep_first seen [] = []"
| "keep_first seen (m # ms) =
     (if m_idx m \<in> set seen then keep_first seen ms
      else m # keep_first (m_idx m # seen) ms)"

definition relevant_logging :: "'g geolib \<Rightarrow> 'g \<Rightarrow> 'g gframe \<Rightarrow> 'g grow list" where
  "relevant_logging lib study_area_mask gdf_logging =
     filter (\<lambda>p. intersects lib (geometry p) study_area_mask) (grows gdf_logging)"

definition in_zone :: "'g geolib \<Rightarrow> 'g \<Rightarrow> 'g gframe \<Rightarrow> 'g gframe \<Rightarrow> 'g match list" where
  "in_zone lib study_area_mask gdf_obs gdf_logging =
     map (set_status Inuti)
       (sjoin (geom_within lib) (grows gdf_obs) (relevant_logging lib study_area_mask gdf_logging))"

definition all_near :: "'g geolib \<Rightarrow> 'g \<Rightarrow> 'g gframe \<Rightarrow> 'g gframe \<Rightarrow> 'g match list" where
  "all_near lib study_area_mask gdf_obs_buffered gdf_logging =
     map (set_status Nara50m)
       (sjoin (intersects lib) (grows gdf_obs_buffered)
          (relevant_logging lib study_area_mask gdf_logging))"

text \<open>The body of the loop over the layers.\<close>

definition analyse_layer ::
  "'g geolib \<Rightarrow> 'g \<Rightarrow> 'g gframe \<Rightarrow> 'g gframe \<Rightarrow> 'g gframe \<Rightarrow> 'g layer_result" where
  "analyse_layer lib study_area_mask gdf_obs gdf_obs_buffered gdf_logging =
     (let combined = in_zone lib study_area_mask gdf_obs gdf_logging
                     @ all_near lib study_area_mask gdf_obs_buffered gdf_logging
      in \<lparr>matches = keep_first [] combined,
          total_relevant_count = length (relevant_logging lib study_area_mask gdf_logging)\<rparr>)"

text \<open>
  Data frames are mutable objects, and \<^verbatim>\<open>run_spatial_analysis\<close> assigns to a column.
  The frames therefore live in a store, a list of frames addressed by position; the
  function receives the address of the observation frame. \<^verbatim>\<open>gdf_obs.copy()\<close>
  allocates a new frame, and the assignment of the buffered geometry writes to the
  address it is given. Both joins read their left frame from the store after that write.
  An address outside the store cannot arise in Python; the model answers None for it.
\<close>

type_synonym 'g store = "'g gframe list"

definition copy_frame :: "nat \<Rightarrow> 'g store \<Rightarrow> nat \<times> 'g store" where
  "copy_frame a h = (length h, h @ [h ! a])"

definition assign_geometry :: "nat \<Rightarrow> ('g \<Rightarrow> 'g) \<Rightarrow> 'g store \<Rightarrow> 'g store" where
  "assign_geometry a f h =
     h[a := (h ! a)\<lparr>grows := map (\<lambda>r. r\<lparr>geometry := f (geometry r)\<rparr>) (grows (h ! a))\<rparr>]"

definition run_spatial_analysis ::
  "'g geolib \<Rightarrow> nat \<Rightarrow> (string \<times> 'g gframe) list \<Rightarrow> 'g store
     \<Rightarrow> ((string \<times> 'g layer_result) list \<times> 'g store) option" where
  "run_spatial_analysis lib gdf_obs logging_data h =
     (if gdf_obs < length h then
        let study_area_mask =
              buffer lib (convex_hull lib (union_all lib (map geometry (grows (h ! gdf_obs))))) 50;
            (gdf_obs_buffered, h1) = copy_frame gdf_obs h;
            h2 = assign_geometry gdf_obs_buffered (\<lambda>g. buffer lib g 50) h1
        in Some (map (\<lambda>(key, gdf_logging).
                        (key, analyse_layer lib study_area_mask (h2 ! gdf_obs)
                                (h2 ! gdf_obs_buffered) gdf_logging))
                   logging_data,
                 h2)
      else None)"

text \<open>The frames the joins of \<^verbatim>\<open>run_spatial_analysis\<close> work on, as functions of the
  observation frame.\<close>

definition study_area :: "'g geolib \<Rightarrow> 'g gframe \<Rightarrow> 'g" where
  "study_area lib obs = buffer lib (convex_hull lib (union_all lib (map geometry (grows obs)))) 50"

definition buffered :: "'g geolib \<Rightarrow> 'g gframe \<Rightarrow> 'g gframe" where
  "buffered lib obs = obs\<lparr>grows := map (\<lambda>r. r\<lparr>geometry := buffer lib (geometry r) 50\<rparr>) (grows obs)\<rparr>"

section \<open>Configuration, files and console output\<close>

text \<open>\<^verbatim>\<open>get_config\<close>: the constants of the run. Paths are modelled by their file
  names; the letters a-umlaut and o-umlaut of the Swedish column names are written
  \<open>a\<close> and \<open>o\<close>.\<close>

record config =
  keep_cols :: "string list"
  layers :: "(string \<times> string) list"
  cache_obs :: string
  cache_layers :: "(string \<times> string) list"
  cfg_crs :: string

definition get_config :: config where
  "get_config =
     \<lparr>keep_cols =
        [''Rodlistade'', ''Artnamn'', ''Vetenskapligt namn'', ''Antal'', ''Enhet'',
         ''Huvudlokal'', ''Lokalnamn'', ''Ost'', ''Nord'', ''Noggrannhet'',
         ''Diffusion'', ''Startdatum'', ''Starttid'', ''Publik kommentar'',
         ''Rapportor'', ''Observatorer'', ''Lan''],
      layers = [(''utford'', ''sksUtfordAvverk.gpkg''), (''anmald'', ''sksAvverkAnm.gpkg'')],
      cache_obs = ''Art_cache.parquet'',
      cache_layers = [(''utford'', ''utford_cache.parquet''), (''anmald'', ''anmald_cache.parquet'')],
      cfg_crs = ''EPSG:3006''\<rparr>"

text \<open>A spreadsheet as \<^verbatim>\<open>pd.read_excel(f, skiprows=2)\<close> returns it.\<close>

record xlsx =
  fname :: string
  xcolumns :: "string list"
  xrows :: "row list"

record frame =
  f_columns :: "string list"
  f_rows :: "row list"

text \<open>The files the program reads and writes: the spreadsheets of the input directory,
  the GeoPackage layers by file name, the parquet caches by file name (None: the file
  does not exist), and the set of paths at which \<^verbatim>\<open>to_parquet\<close> raises.
  The console output of the two loaders is returned with their result as a list of
  messages; the output of a call that ends with an exception is not kept.\<close>

record 'g world =
  xlsx_files :: "xlsx list"
  gpkg :: "string \<Rightarrow> 'g gframe option"
  parquet :: "string \<Rightarrow> 'g gframe option"
  write_fails :: "string \<Rightarrow> bool"

datatype msg =
    CacheLoadObs string
  | ReadingExcel
  | ReadingFile string
  | CacheCreated nat
  | CacheWarning
  | CacheLoadLayer string
  | FilteringBBox string
  | RemovedOld nat string int

section \<open>The observation loader: \<^verbatim>\<open>load_observations\<close>\<close>

text \<open>\<^verbatim>\<open>pd.to_numeric(.., errors='coerce')\<close> and
  \<^verbatim>\<open>pd.to_datetime(.., errors='coerce')\<close> on one cell: what the library cannot parse
  becomes the missing value.\<close>

definition to_numeric :: "'g geolib \<Rightarrow> cell \<Rightarrow> cell" where
  "to_numeric lib c =
     (case c of Num x \<Rightarrow> Num x | NaN \<Rightarrow> NaN
      | _ \<Rightarrow> (case parse_numeric lib c of Some x \<Rightarrow> Num x | None \<Rightarrow> NaN))"

definition to_datetime :: "'g geolib \<Rightarrow> cell \<Rightarrow> cell" where
  "to_datetime lib c =
     (case c of Stamp t \<Rightarrow> Stamp t | NaN \<Rightarrow> NaN
      | _ \<Rightarrow> (case parse_datetime lib c of Some t \<Rightarrow> Stamp t | None \<Rightarrow> NaN))"

text \<open>\<^verbatim>\<open>df['Noggrannhet'] <= 50\<close> on one cell: a comparison with NaN is False.\<close>

definition accuracy_ok :: "cell \<Rightarrow> bool" where
  "accuracy_ok c = (case c of Num a \<Rightarrow> a \<le> 50 | _ \<Rightarrow> False)"

text \<open>The body of the loop over the spreadsheets.\<close>

definition clean_file :: "'g geolib \<Rightarrow> config \<Rightarrow> xlsx \<Rightarrow> error + frame" where
  "clean_file lib cfg f =
     (let valid_cols = filter (\<lambda>c. c \<in> set (xcolumns f)) (keep_cols cfg);
          df = map (\<lambda>r. map (\<lambda>c. (c, get_cell r c)) valid_cols) (xrows f)
      in if ''Ost'' \<notin> set valid_cols then Inl (KeyError ''Ost'')
         else if ''Nord'' \<notin> set valid_cols then Inl (KeyError ''Nord'')
         else
           let df = map (upd_cell ''Ost'' (to_numeric lib)) df;
               df = map (upd_cell ''Nord'' (to_numeric lib)) df;
               df = (if ''Noggrannhet'' \<in> set valid_cols
                     then filter (\<lambda>r. accuracy_ok (get_cell r ''Noggrannhet''))
                            (map (upd_cell ''Noggrannhet'' (to_numeric lib)) df)
                     else df);
               df = (if ''Antal'' \<in> set valid_cols
                     then map (upd_cell ''Antal'' (to_numeric lib)) df else df);
               df = filter (\<lambda>r. get_cell r ''Ost'' \<noteq> NaN \<and> get_cell r ''Nord'' \<noteq> NaN) df;
               df = map (put_cell ''Kalla'' (Str (fname f))) df
           in Inr \<lparr>f_columns = valid_cols @ [''Kalla''], f_rows = df\<rparr>)"

fun clean_files :: "'g geolib \<Rightarrow> config \<Rightarrow> xlsx list \<Rightarrow> error + (frame list \<times> msg list)" where
  "clean_files lib cfg [] = Inr ([], [])"
| "clean_files lib cfg (f # fs) =
     (case clean_file lib cfg f of
        Inl e \<Rightarrow> Inl e
      | Inr df \<Rightarrow>
          (case clean_files lib cfg fs of
             Inl e \<Rightarrow> Inl e
           | Inr (dfs, out) \<Rightarrow> Inr (df # dfs, ReadingFile (fname f) # out)))"

text \<open>The rows of a spreadsheet that survive the cleaning, as a condition on the row that
  was read: where the spreadsheet has the accuracy column, the coerced accuracy is a
  number of at most 50; and both coerced coordinates are present. The three cells of a
  surviving row that the condition is about are its coerced coordinates and its coerced
  accuracy, the latter missing where the spreadsheet has no accuracy column.\<close>

definition keeps_row :: "'g geolib \<Rightarrow> xlsx \<Rightarrow> row \<Rightarrow> bool" where
  "keeps_row lib f r =
     ((''Noggrannhet'' \<in> set (xcolumns f) \<longrightarrow>
         accuracy_ok (to_numeric lib (get_cell r ''Noggrannhet'')))
      \<and> to_numeric lib (get_cell r ''Ost'') \<noteq> NaN
      \<and> to_numeric lib (get_cell r ''Nord'') \<noteq> NaN)"

definition cleaned_cells :: "'g geolib \<Rightarrow> xlsx \<Rightarrow> row \<Rightarrow> cell list" where
  "cleaned_cells lib f r =
     [to_numeric lib (get_cell r ''Ost''), to_numeric lib (get_cell r ''Nord''),
      if ''Noggrannhet'' \<in> set (xcolumns f) then to_numeric lib (get_cell r ''Noggrannhet'') else NaN]"

text \<open>\<^verbatim>\<open>pd.concat(dfs, ignore_index=True)\<close>: the columns in order of first
  appearance, every row filled with NaN in the columns its part does not have.\<close>

definition concat_frames :: "frame list \<Rightarrow> frame" where
  "concat_frames dfs =
     (let cols = rev (remdups (rev (concat (map f_columns dfs))))
      in \<lparr>f_columns = cols,
          f_rows = map (\<lambda>r. map (\<lambda>c. (c, get_cell r c)) cols) (concat (map f_rows dfs))\<rparr>)"

text \<open>A column has dtype \<^verbatim>\<open>object\<close> unless its cells are all numbers or missing, or
  all timestamps or missing.\<close>

definition is_object :: "row list \<Rightarrow> string \<Rightarrow> bool" where
  "is_object rs c =
     (\<not> list_all (\<lambda>r. case get_cell r c of Num _ \<Rightarrow> True | NaN \<Rightarrow> True | _ \<Rightarrow> False) rs
      \<and> \<not> list_all (\<lambda>r. case get_cell r c of Stamp _ \<Rightarrow> True | NaN \<Rightarrow> True | _ \<Rightarrow> False) rs)"

definition as_text :: "'g geolib \<Rightarrow> cell \<Rightarrow> cell" where
  "as_text lib c = (let s = str_of lib c in Str (if s = ''nan'' then [] else s))"

definition normalise_text :: "'g geolib \<Rightarrow> frame \<Rightarrow> frame" where
  "normalise_text lib df =
     fold (\<lambda>col d. if is_object (f_rows d) col \<and> col \<noteq> ''geometry''
                    then d\<lparr>f_rows := map (upd_cell col (as_text lib)) (f_rows d)\<rparr> else d)
       (f_columns df) df"

definition to_geoframe :: "'g geolib \<Rightarrow> string \<Rightarrow> frame \<Rightarrow> 'g gframe" where
  "to_geoframe lib c df =
     \<lparr>columns = f_columns df, crs = c,
      grows = map (\<lambda>(i, r). \<lparr>idx = i, attrs = r,
                     geometry = points_from_xy lib (get_cell r ''Ost'') (get_cell r ''Nord'')\<rparr>)
                (zip [0 ..< length (f_rows df)] (f_rows df))\<rparr>"

definition load_observations ::
  "'g geolib \<Rightarrow> config \<Rightarrow> 'g world \<Rightarrow> error + ('g gframe \<times> 'g world \<times> msg list)" where
  "load_observations lib cfg w =
     (case parquet w (cache_obs cfg) of
        Some cached \<Rightarrow> Inr (cached, w, [CacheLoadObs (cache_obs cfg)])
      | None \<Rightarrow>
          if xlsx_files w = [] then Inl SystemExit
          else
            (case clean_files lib cfg (xlsx_files w) of
               Inl e \<Rightarrow> Inl e
             | Inr (dfs, out) \<Rightarrow>
                 let combined_df = normalise_text lib (concat_frames dfs);
                     gdf_obs = to_geoframe lib (cfg_crs cfg) combined_df
                 in if write_fails w (cache_obs cfg)
                    then Inr (gdf_obs, w, ReadingExcel # out @ [CacheWarning])
                    else Inr (gdf_obs, w\<lparr>parquet := (parquet w)(cache_obs cfg \<mapsto> gdf_obs)\<rparr>,
                              ReadingExcel # out @ [CacheCreated (length (grows gdf_obs))])))"

section \<open>The logging layer loader: \<^verbatim>\<open>load_filtered_logging\<close>\<close>

text \<open>The filter on time: the date column is coerced to timestamps, and a row stays when
  the year of its timestamp is at least the start year. The year of a missing timestamp
  is NaN, and the comparison with NaN is False.\<close>

definition year_ok :: "int \<Rightarrow> cell \<Rightarrow> bool" where
  "year_ok start_year c = (case c of Stamp t \<Rightarrow> start_year \<le> year t | _ \<Rightarrow> False)"

definition year_filter :: "'g geolib \<Rightarrow> string \<Rightarrow> int \<Rightarrow> 'g gframe \<Rightarrow> 'g gframe" where
  "year_filter lib date_col start_year gdf =
     gdf\<lparr>grows := filter (\<lambda>r. year_ok start_year (get_cell (attrs r) date_col))
                     (map (\<lambda>r. r\<lparr>attrs := upd_cell date_col (to_datetime lib) (attrs r)\<rparr>)
                        (grows gdf))\<rparr>"

definition date_col_of :: "string \<Rightarrow> string" where
  "date_col_of key = (if key = ''utford'' then ''Avvdatum'' else ''Inkomdatum'')"

text \<open>\<^verbatim>\<open>gpd.read_file(path, bbox=bbox)\<close> followed by the reprojection. The rows that
  were read are numbered from 0.\<close>

definition reset_index :: "'g grow list \<Rightarrow> 'g grow list" where
  "reset_index rs = map (\<lambda>(i, r). r\<lparr>idx := i\<rparr>) (zip [0 ..< length rs] rs)"

definition read_layer ::
  "'g geolib \<Rightarrow> config \<Rightarrow> bbox \<Rightarrow> string \<Rightarrow> 'g world \<Rightarrow> error + 'g gframe" where
  "read_layer lib cfg bb filename w =
     (case gpkg w filename of
        None \<Rightarrow> Inl (ReadError filename)
      | Some src \<Rightarrow>
          let gdf = src\<lparr>grows := reset_index (filter (\<lambda>r. bbox_hit lib bb (geometry r)) (grows src))\<rparr>
          in Inr (if crs gdf \<noteq> cfg_crs cfg
                  then gdf\<lparr>crs := cfg_crs cfg,
                           grows := map (\<lambda>r. r\<lparr>geometry := to_crs lib (crs gdf) (cfg_crs cfg) (geometry r)\<rparr>)
                                      (grows gdf)\<rparr>
                  else gdf))"

text \<open>The cache of a layer when the file exists, the filtered source otherwise.\<close>

definition fetch_layer ::
  "'g geolib \<Rightarrow> config \<Rightarrow> bbox \<Rightarrow> string \<Rightarrow> string \<Rightarrow> string \<Rightarrow> 'g world
     \<Rightarrow> error + ('g gframe \<times> msg list)" where
  "fetch_layer lib cfg bb key filename cache_path w =
     (case parquet w cache_path of
        Some cached \<Rightarrow> Inr (cached, [CacheLoadLayer key])
      | None \<Rightarrow> (case read_layer lib cfg bb filename w of
                    Inl e \<Rightarrow> Inl e
                  | Inr gdf \<Rightarrow> Inr (gdf, [FilteringBBox filename])))"

text \<open>The filter on time of one layer (the block \<^verbatim>\<open>FILTRERING PA TID\<close>), with the
  message it prints when rows were removed.\<close>

definition filter_on_time :: "'g geolib \<Rightarrow> string \<Rightarrow> int \<Rightarrow> 'g gframe \<Rightarrow> 'g gframe \<times> msg list" where
  "filter_on_time lib key start_year gdf0 =
     (let date_col = date_col_of key
      in if date_col \<in> set (columns gdf0)
         then
           let before_count = length (grows gdf0);
               gdf = year_filter lib date_col start_year gdf0;
               diff = before_count - length (grows gdf)
           in (gdf, if 0 < diff then [RemovedOld diff key start_year] else [])
         else (gdf0, []))"

text \<open>The body of the loop over the layers. Writing the cache is not guarded: an
  exception of \<^verbatim>\<open>to_parquet\<close> leaves the function.\<close>

definition load_layer ::
  "'g geolib \<Rightarrow> config \<Rightarrow> bbox \<Rightarrow> int \<Rightarrow> string \<Rightarrow> string \<Rightarrow> 'g world
     \<Rightarrow> error + ('g gframe \<times> 'g world \<times> msg list)" where
  "load_layer lib cfg bb start_year key filename w =
     (case map_of (cache_layers cfg) key of
        None \<Rightarrow> Inl (KeyError key)
      | Some cache_path \<Rightarrow>
          (case fetch_layer lib cfg bb key filename cache_path w of
             Inl e \<Rightarrow> Inl e
           | Inr (gdf0, out0) \<Rightarrow>
               let (gdf, out1) = filter_on_time lib key start_year gdf0
               in if parquet w cache_path = None
                  then (if write_fails w cache_path then Inl (WriteError cache_path)
                        else Inr (gdf, w\<lparr>parquet := (parquet w)(cache_path \<mapsto> gdf)\<rparr>, out0 @ out1))
                  else Inr (gdf, w, out0 @ out1)))"

fun load_layers ::
  "'g geolib \<Rightarrow> config \<Rightarrow> bbox \<Rightarrow> int \<Rightarrow> (string \<times> string) list \<Rightarrow> 'g world
     \<Rightarrow> error + ((string \<times> 'g gframe) list \<times> 'g world \<times> msg list)" where
  "load_layers lib cfg bb start_year [] w = Inr ([], w, [])"
| "load_layers lib cfg bb start_year ((key, filename) # ls) w =
     (case load_layer lib cfg bb start_year key filename w of
        Inl e \<Rightarrow> Inl e
      | Inr (gdf, w1, out1) \<Rightarrow>
          (case load_layers lib cfg bb start_year ls w1 of
             Inl e \<Rightarrow> Inl e
           | Inr (logging_data, w2, out2) \<Rightarrow> Inr ((key, gdf) # logging_data, w2, out1 @ out2)))"

definition load_filtered_logging ::
  "'g geolib \<Rightarrow> config \<Rightarrow> bbox \<Rightarrow> int \<Rightarrow> 'g world
     \<Rightarrow> error + ((string \<times> 'g gframe) list \<times> 'g world \<times> msg list)" where
  "load_filtered_logging lib cfg bb start_year w = load_layers lib cfg bb start_year (layers cfg) w"

section \<open>The reporter: \<^verbatim>\<open>describe_and_save\<close>\<close>

text \<open>The timestamps of a date column after \<^verbatim>\<open>pd.to_datetime(.., errors='coerce')\<close>,
  missing values left out, and the years of the earliest and the latest of them.
  \<^verbatim>\<open>int(obs_dates.min().year)\<close> raises ValueError when there is none: the minimum is
  NaT and its year is NaN.\<close>

definition stamps_of :: "'g geolib \<Rightarrow> string \<Rightarrow> 'g grow list \<Rightarrow> timestamp list" where
  "stamps_of lib col rs =
     List.map_filter (\<lambda>r. case to_datetime lib (get_cell (attrs r) col) of
                             Stamp t \<Rightarrow> Some t | _ \<Rightarrow> None) rs"

definition year_range :: "timestamp list \<Rightarrow> (int \<times> int) option" where
  "year_range ts = (case map year ts of [] \<Rightarrow> None | y # ys \<Rightarrow> Some (fold min ys y, fold max ys y))"

record layer_report =
  n_inuti :: nat
  n_nara :: nat
  areas_inuti :: nat
  areas_nara_only :: nat
  affected_areas :: nat
  total_relevant :: nat
  andel_omraden :: real

record report =
  obs_min :: int
  obs_max :: int
  per_layer :: "(string \<times> layer_report) list"
  affected_obs :: nat
  total_obs :: nat
  andel_vaxtplatser :: real

text \<open>The statistics of one layer, the body of the loop over \<^verbatim>\<open>["utford", "anmald"]\<close>.
  The argument is \<^verbatim>\<open>results.get(key)\<close>; for an absent key the program continues with
  an empty \<^verbatim>\<open>pd.DataFrame()\<close>, and reading its column \<^verbatim>\<open>Status_Analys\<close> raises KeyError.
  The percentage is the Python expression \<^verbatim>\<open>(len(all_affected_areas) / total_relevant) * 100\<close>,
  which raises ZeroDivisionError for a zero divisor. The texts of the report (names,
  date ranges) and the spreadsheet export are not modelled.\<close>

definition describe_layer :: "'g layer_result option \<Rightarrow> error + layer_report" where
  "describe_layer analysis_data =
     (case analysis_data of
        None \<Rightarrow> Inl (KeyError ''Status_Analys'')
      | Some res \<Rightarrow>
          let res_df = matches res;
              total = total_relevant_count res;
              inuti = filter (\<lambda>m. Status_Analys m = Inuti) res_df;
              nara = filter (\<lambda>m. Status_Analys m = Nara50m) res_df;
              all_affected_areas = remdups (map index_right res_df);
              areas_inuti_ids = remdups (map index_right inuti);
              nara_only = filter (\<lambda>i. i \<notin> set areas_inuti_ids) all_affected_areas
          in if total = 0 then Inl ZeroDivisionError
             else Inr \<lparr>n_inuti = length inuti, n_nara = length nara,
                       areas_inuti = length areas_inuti_ids,
                       areas_nara_only = length nara_only,
                       affected_areas = length all_affected_areas,
                       total_relevant = total,
                       andel_omraden = (real (length all_affected_areas) / real total) * 100\<rparr>)"

definition is_text :: "cell \<Rightarrow> bool" where
  "is_text c = (case c of Str _ \<Rightarrow> True | _ \<Rightarrow> False)"

text \<open>\<^verbatim>\<open>", ".join(..)\<close> raises TypeError for a value that is not a text: for any
  species name that is not a text, and for a region that is neither missing (the missing
  ones are dropped first) nor a text.\<close>

definition describe_and_save ::
  "'g geolib \<Rightarrow> 'g gframe \<Rightarrow> (string \<times> 'g layer_result) list \<Rightarrow> (string \<times> 'g gframe) list
     \<Rightarrow> error + report" where
  "describe_and_save lib gdf_obs results logging_data =
     (if ''Artnamn'' \<notin> set (columns gdf_obs) then Inl (KeyError ''Artnamn'')
      else if \<not> list_all (\<lambda>r. is_text (get_cell (attrs r) ''Artnamn'')) (grows gdf_obs)
      then Inl TypeError
      else if ''Startdatum'' \<notin> set (columns gdf_obs) then Inl (KeyError ''Startdatum'')
      else
        (case year_range (stamps_of lib ''Startdatum'' (grows gdf_obs)) of
           None \<Rightarrow> Inl ValueError
         | Some (lo, hi) \<Rightarrow>
             if ''Lan'' \<in> set (columns gdf_obs)
                \<and> \<not> list_all (\<lambda>r. get_cell (attrs r) ''Lan'' = NaN \<or> is_text (get_cell (attrs r) ''Lan''))
                      (grows gdf_obs)
             then Inl TypeError
             else
             (case describe_layer (map_of results ''utford'') of
                Inl e \<Rightarrow> Inl e
              | Inr r1 \<Rightarrow>
                  (case describe_layer (map_of results ''anmald'') of
                     Inl e \<Rightarrow> Inl e
                   | Inr r2 \<Rightarrow>
                       let all_affected_idx =
                             remdups (concat (map (\<lambda>(k, res). map m_idx (matches res)) results))
                       in if results = [] then Inl ValueError
                          else if grows gdf_obs = [] then Inl ZeroDivisionError
                          else Inr \<lparr>obs_min = lo, obs_max = hi,
                                    per_layer = [(''utford'', r1), (''anmald'', r2)],
                                    affected_obs = length all_affected_idx,
                                    total_obs = length (grows gdf_obs),
                                    andel_vaxtplatser =
                                      (real (length all_affected_idx) / real (length (grows gdf_obs))) * 100\<rparr>))))"

section \<open>The script\<close>

text \<open>\<^verbatim>\<open>int(obs_dates.min().year)\<close> in the main script.\<close>

definition start_year_of :: "'g geolib \<Rightarrow> 'g gframe \<Rightarrow> error + int" where
  "start_year_of lib gdf_obs =
     (if ''Startdatum'' \<notin> set (columns gdf_obs) then Inl (KeyError ''Startdatum'')
      else (case year_range (stamps_of lib ''Startdatum'' (grows gdf_obs)) of
              None \<Rightarrow> Inl ValueError
            | Some (lo, hi) \<Rightarrow> Inr lo))"

text \<open>The run from a loaded observation frame on. The observation frame is the only
  frame of the store when the matcher is called; the answer None stands for a reference
  outside the store and does not occur (\<open>main_from_defined\<close> below).\<close>

definition main_from ::
  "'g geolib \<Rightarrow> config \<Rightarrow> 'g gframe \<Rightarrow> 'g world \<Rightarrow> (error + (report \<times> 'g world)) option" where
  "main_from lib cfg gdf_obs w =
     (case start_year_of lib gdf_obs of
        Inl e \<Rightarrow> Some (Inl e)
      | Inr start_year \<Rightarrow>
          let boundary = total_bounds lib (map geometry (grows gdf_obs))
          in (case load_filtered_logging lib cfg boundary start_year w of
                Inl e \<Rightarrow> Some (Inl e)
              | Inr (logging_data, w', out) \<Rightarrow>
                  (case run_spatial_analysis lib 0 logging_data [gdf_obs] of
                     None \<Rightarrow> None
                   | Some (analysis_results, h) \<Rightarrow>
                       (case describe_and_save lib (h ! 0) analysis_results logging_data of
                          Inl e \<Rightarrow> Some (Inl e)
                        | Inr rep \<Rightarrow> Some (Inr (rep, w'))))))"

definition main :: "'g geolib \<Rightarrow> 'g world \<Rightarrow> (error + (report \<times> 'g world)) option" where
  "main lib w =
     (let cfg = get_config
      in case load_observations lib cfg w of
           Inl e \<Rightarrow> Some (Inl e)
         | Inr (gdf_obs, w', out) \<Rightarrow> main_from lib cfg gdf_obs w')"

section \<open>A concrete library for evaluating the model\<close>

text \<open>
  To run the model on examples, the library parameters are instantiated with a small
  exact geometry: axis-parallel rectangles (a point is a rectangle without extent) under
  the maximum norm, in which the buffer of a rectangle is a rectangle. The hull of a
  union is its bounding rectangle. Numbers are parsed from digit strings and dates from
  four-digit years.
\<close>

datatype geom = Empty | Rect real real real real

definition rect_buffer :: "geom \<Rightarrow> real \<Rightarrow> geom" where
  "rect_buffer g d = (case g of Empty \<Rightarrow> Empty | Rect a b c e \<Rightarrow> Rect (a - d) (b - d) (c + d) (e + d))"

definition rect_join :: "geom \<Rightarrow> geom \<Rightarrow> geom" where
  "rect_join g k =
     (case g of Empty \<Rightarrow> k
      | Rect a b c e \<Rightarrow>
          (case k of Empty \<Rightarrow> g
           | Rect a' b' c' e' \<Rightarrow> Rect (min a a') (min b b') (max c c') (max e e')))"

definition rect_intersects :: "geom \<Rightarrow> geom \<Rightarrow> bool" where
  "rect_intersects g k =
     (case g of Empty \<Rightarrow> False
      | Rect a b c e \<Rightarrow>
          (case k of Empty \<Rightarrow> False
           | Rect a' b' c' e' \<Rightarrow> a \<le> c \<and> b \<le> e \<and> a' \<le> c' \<and> b' \<le> e'
                                  \<and> a \<le> c' \<and> a' \<le> c \<and> b \<le> e' \<and> b' \<le> e))"

definition rect_within :: "geom \<Rightarrow> geom \<Rightarrow> bool" where
  "rect_within g k =
     (case g of Empty \<Rightarrow> False
      | Rect a b c e \<Rightarrow>
          (case k of Empty \<Rightarrow> False
           | Rect a' b' c' e' \<Rightarrow> a \<le> c \<and> b \<le> e \<and> a' < a \<and> c < c' \<and> b' < b \<and> e < e'))"

definition rect_bounds :: "geom list \<Rightarrow> bbox" where
  "rect_bounds gs =
     (case fold rect_join gs Empty of Empty \<Rightarrow> (0, 0, 0, 0) | Rect a b c e \<Rightarrow> (a, b, c, e))"

definition digit_of :: "char \<Rightarrow> nat option" where
  "digit_of = map_of (zip ''0123456789'' [0, 1, 2, 3, 4, 5, 6, 7, 8, 9])"

fun digits_val :: "nat \<Rightarrow> string \<Rightarrow> nat option" where
  "digits_val acc [] = Some acc"
| "digits_val acc (c # cs) =
     (case digit_of c of None \<Rightarrow> None | Some d \<Rightarrow> digits_val (10 * acc + d) cs)"

definition rect_parse_numeric :: "cell \<Rightarrow> real option" where
  "rect_parse_numeric c =
     (case c of Str s \<Rightarrow> (if s = [] then None else map_option real (digits_val 0 s)) | _ \<Rightarrow> None)"

definition rect_parse_datetime :: "cell \<Rightarrow> timestamp option" where
  "rect_parse_datetime c =
     (case c of
        Str s \<Rightarrow> (if length s = 4
                   then map_option (\<lambda>y. Timestamp (int y) 1 1) (digits_val 0 s) else None)
      | _ \<Rightarrow> None)"

definition rect_point :: "cell \<Rightarrow> cell \<Rightarrow> geom" where
  "rect_point x y = (case x of Num a \<Rightarrow> (case y of Num b \<Rightarrow> Rect a b a b | _ \<Rightarrow> Empty) | _ \<Rightarrow> Empty)"

definition rect_lib :: "geom geolib" where
  "rect_lib =
     \<lparr>points_from_xy = rect_point,
      buffer = rect_buffer,
      convex_hull = (\<lambda>g. g),
      union_all = (\<lambda>gs. fold rect_join gs Empty),
      intersects = rect_intersects,
      geom_within = rect_within,
      bbox_hit = (\<lambda>(a, b, c, e) g. rect_intersects (Rect a b c e) g),
      to_crs = (\<lambda>src dst g. g),
      total_bounds = rect_bounds,
      parse_numeric = rect_parse_numeric,
      parse_datetime = rect_parse_datetime,
      str_of = (\<lambda>c. case c of Str s \<Rightarrow> s | NaN \<Rightarrow> ''nan'' | _ \<Rightarrow> ''?'')\<rparr>"

section \<open>Example inputs\<close>

text \<open>Two observations and a layer of three polygons: observation 0 lies in the polygons
  0 and 2, observation 1 lies 20 units to the left of polygon 1.\<close>

definition ex_obs :: "geom gframe" where
  "ex_obs =
     \<lparr>columns = [''Artnamn'', ''Ost'', ''Nord'', ''Startdatum''],
      crs = ''EPSG:3006'',
      grows =
        [\<lparr>idx = 0,
          attrs = [(''Artnamn'', Str ''Knarot''), (''Ost'', Num 10), (''Nord'', Num 10),
                   (''Startdatum'', Stamp (Timestamp 2019 7 1))],
          geometry = Rect 10 10 10 10\<rparr>,
         \<lparr>idx = 1,
          attrs = [(''Artnamn'', Str ''Knarot''), (''Ost'', Num 130), (''Nord'', Num 10),
                   (''Startdatum'', Stamp (Timestamp 2021 8 2))],
          geometry = Rect 130 10 130 10\<rparr>]\<rparr>"

definition ex_layer :: "geom gframe" where
  "ex_layer =
     \<lparr>columns = [''Avvdatum''], crs = ''EPSG:3006'',
      grows =
        [\<lparr>idx = 0, attrs = [(''Avvdatum'', Stamp (Timestamp 2020 5 1))],
          geometry = Rect 0 0 20 20\<rparr>,
         \<lparr>idx = 1, attrs = [(''Avvdatum'', Stamp (Timestamp 2021 6 1))],
          geometry = Rect 150 0 200 20\<rparr>,
         \<lparr>idx = 2, attrs = [(''Avvdatum'', Stamp (Timestamp 2022 7 1))],
          geometry = Rect 5 5 15 15\<rparr>]\<rparr>"

definition ex_inside :: "geom match" where
  "ex_inside =
     \<lparr>m_idx = 0,
      m_left = [(''Artnamn'', Str ''Knarot''), (''Ost'', Num 10), (''Nord'', Num 10),
                (''Startdatum'', Stamp (Timestamp 2019 7 1))],
      m_geometry = Rect 10 10 10 10, index_right = 0,
      m_right = [(''Avvdatum'', Stamp (Timestamp 2020 5 1))], Status_Analys = Inuti\<rparr>"

definition ex_near :: "geom match" where
  "ex_near =
     \<lparr>m_idx = 1,
      m_left = [(''Artnamn'', Str ''Knarot''), (''Ost'', Num 130), (''Nord'', Num 10),
                (''Startdatum'', Stamp (Timestamp 2021 8 2))],
      m_geometry = Rect 80 (- 40) 180 60, index_right = 1,
      m_right = [(''Avvdatum'', Stamp (Timestamp 2021 6 1))], Status_Analys = Nara50m\<rparr>"

text \<open>A spreadsheet of three observations with accuracies 60, 10 and missing, a second
  layer with one date given as text and one that does not parse, and worlds built from
  them.\<close>

definition ex_xlsx :: xlsx where
  "ex_xlsx =
     \<lparr>fname = ''fynd.xlsx'',
      xcolumns = [''Artnamn'', ''Ost'', ''Nord'', ''Noggrannhet'', ''Startdatum''],
      xrows =
        [[(''Artnamn'', Str ''Knarot''), (''Ost'', Num 10), (''Nord'', Num 10),
          (''Noggrannhet'', Num 60), (''Startdatum'', Stamp (Timestamp 2019 7 1))],
         [(''Artnamn'', Str ''Knarot''), (''Ost'', Num 130), (''Nord'', Num 10),
          (''Noggrannhet'', Num 10), (''Startdatum'', Stamp (Timestamp 2021 8 2))],
         [(''Artnamn'', Str ''Knarot''), (''Ost'', Num 10), (''Nord'', Num 10),
          (''Noggrannhet'', NaN), (''Startdatum'', Stamp (Timestamp 2020 6 3))]]\<rparr>"

definition ex_anmald :: "geom gframe" where
  "ex_anmald =
     \<lparr>columns = [''Inkomdatum''], crs = ''EPSG:3006'',
      grows =
        [\<lparr>idx = 0, attrs = [(''Inkomdatum'', Str ''2022'')], geometry = Rect 120 0 140 20\<rparr>,
         \<lparr>idx = 1, attrs = [(''Inkomdatum'', Str ''okant'')], geometry = Rect 0 0 20 20\<rparr>]\<rparr>"

definition ex_world :: "geom world" where
  "ex_world =
     \<lparr>xlsx_files = [ex_xlsx],
      gpkg = [''sksUtfordAvverk.gpkg'' \<mapsto> ex_layer, ''sksAvverkAnm.gpkg'' \<mapsto> ex_anmald],
      parquet = Map.empty,
      write_fails = (\<lambda>p. False)\<rparr>"

definition ex_world_cached :: "geom world" where
  "ex_world_cached =
     \<lparr>xlsx_files = [ex_xlsx],
      gpkg = Map.empty,
      parquet = [''utford_cache.parquet'' \<mapsto> ex_layer, ''anmald_cache.parquet'' \<mapsto> ex_anmald],
      write_fails = (\<lambda>p. False)\<rparr>"

text \<open>The observation frame that \<^verbatim>\<open>load_observations\<close> builds from the example
  spreadsheet, a spreadsheet whose only row has accuracy 60, and its world.\<close>

definition ex_gdf :: "geom gframe" where
  "ex_gdf =
     \<lparr>columns = [''Artnamn'', ''Ost'', ''Nord'', ''Noggrannhet'', ''Startdatum'', ''Kalla''],
      crs = ''EPSG:3006'',
      grows =
        [\<lparr>idx = 0,
          attrs = [(''Artnamn'', Str ''Knarot''), (''Ost'', Num 130), (''Nord'', Num 10),
                   (''Noggrannhet'', Num 10), (''Startdatum'', Stamp (Timestamp 2021 8 2)),
                   (''Kalla'', Str ''fynd.xlsx'')],
          geometry = Rect 130 10 130 10\<rparr>]\<rparr>"

definition ex_xlsx_coarse :: xlsx where
  "ex_xlsx_coarse = ex_xlsx\<lparr>xrows := [hd (xrows ex_xlsx)]\<rparr>"

definition ex_world_coarse :: "geom world" where
  "ex_world_coarse = ex_world\<lparr>xlsx_files := [ex_xlsx_coarse]\<rparr>"

text \<open>The example world with a cache directory that cannot be written.\<close>

definition ex_world_readonly :: "geom world" where
  "ex_world_readonly = ex_world\<lparr>write_fails := (\<lambda>p. True)\<rparr>"

text \<open>A spreadsheet without an accuracy column, the world with both spreadsheets, and
  the world in which only the cache of the second layer exists.\<close>

definition ex_xlsx_plain :: xlsx where
  "ex_xlsx_plain =
     \<lparr>fname = ''aldre.xlsx'',
      xcolumns = [''Artnamn'', ''Ost'', ''Nord'', ''Startdatum''],
      xrows =
        [[(''Artnamn'', Str ''Knarot''), (''Ost'', Num 15), (''Nord'', Num 15),
          (''Startdatum'', Stamp (Timestamp 2018 5 4))],
         [(''Artnamn'', Str ''Knarot''), (''Ost'', Str ''x''), (''Nord'', Num 15),
          (''Startdatum'', Stamp (Timestamp 2018 5 5))]]\<rparr>"

definition ex_world_two :: "geom world" where
  "ex_world_two = ex_world\<lparr>xlsx_files := [ex_xlsx, ex_xlsx_plain]\<rparr>"

definition ex_world_mixed :: "geom world" where
  "ex_world_mixed = ex_world\<lparr>parquet := [''anmald_cache.parquet'' \<mapsto> ex_anmald]\<rparr>"

text \<open>The world with the caches that a run with start year 2021 writes.\<close>

definition ex_anmald_2021 :: "geom gframe" where
  "ex_anmald_2021 =
     ex_anmald\<lparr>grows := [\<lparr>idx = 0, attrs = [(''Inkomdatum'', Stamp (Timestamp 2022 1 1))],
                           geometry = Rect 120 0 140 20\<rparr>]\<rparr>"

definition ex_world_fresh :: "geom world" where
  "ex_world_fresh =
     ex_world_cached\<lparr>parquet := [''utford_cache.parquet'' \<mapsto> ex_layer\<lparr>grows := tl (grows ex_layer)\<rparr>,
                                ''anmald_cache.parquet'' \<mapsto> ex_anmald_2021]\<rparr>"

text \<open>A cell that is a number or missing: the cells of a numeric column.\<close>

definition plain :: "cell \<Rightarrow> bool" where
  "plain c = (case c of Num _ \<Rightarrow> True | NaN \<Rightarrow> True | _ \<Rightarrow> False)"

section \<open>Properties of the matcher\<close>

lemma run_spatial_analysis_eq:
  assumes "a < length h"
  shows "run_spatial_analysis lib a logging_data h =
           Some (map (\<lambda>(key, gdf_logging).
                        (key, analyse_layer lib (study_area lib (h ! a)) (h ! a)
                                (buffered lib (h ! a)) gdf_logging)) logging_data,
                 h @ [buffered lib (h ! a)])"
  using assms
  by (simp add: run_spatial_analysis_def copy_frame_def assign_geometry_def study_area_def
      buffered_def Let_def nth_append list_update_append)

lemma run_spatial_analysis_layer:
  assumes "run_spatial_analysis lib a logging_data h = Some (results, h')"
    and "(key, res) \<in> set results"
  shows "\<exists>gdf_logging. (key, gdf_logging) \<in> set logging_data
           \<and> res = analyse_layer lib (study_area lib (h ! a)) (h ! a) (buffered lib (h ! a)) gdf_logging"
proof -
  from assms(1) have a: "a < length h"
    by (auto simp: run_spatial_analysis_def split: if_splits)
  from assms show ?thesis
    unfolding run_spatial_analysis_eq [OF a] by auto
qed


lemma keep_first_idx:
  "set (map m_idx (keep_first seen ms)) = set (map m_idx ms) - set seen"
  by (induction ms arbitrary: seen) auto

lemma keep_first_distinct: "distinct (map m_idx (keep_first seen ms))"
  by (induction ms arbitrary: seen) (auto simp: keep_first_idx simp del: set_map)

lemma keep_first_find:
  "m \<in> set (keep_first seen ms) \<Longrightarrow> find (\<lambda>m'. m_idx m' = m_idx m) ms = Some m"
proof (induction ms arbitrary: seen)
  case Nil
  then show ?case by simp
next
  case (Cons x xs)
  show ?case
  proof (cases "m_idx x \<in> set seen")
    case True
    with Cons.prems have in_rest: "m \<in> set (keep_first seen xs)" by simp
    then have "m_idx m \<in> set (map m_idx (keep_first seen xs))" by simp
    then have "m_idx m \<notin> set seen" unfolding keep_first_idx by simp
    with True have "m_idx x \<noteq> m_idx m" by auto
    with Cons.IH [OF in_rest] show ?thesis by simp
  next
    case False
    with Cons.prems have "m = x \<or> m \<in> set (keep_first (m_idx x # seen) xs)" by simp
    then show ?thesis
    proof
      assume "m = x"
      then show ?thesis by simp
    next
      assume in_rest: "m \<in> set (keep_first (m_idx x # seen) xs)"
      then have "m_idx m \<in> set (map m_idx (keep_first (m_idx x # seen) xs))" by simp
      then have "m_idx m \<noteq> m_idx x" unfolding keep_first_idx by simp
      with Cons.IH [OF in_rest] show ?thesis by auto
    qed
  qed
qed

lemma find_append_first:
  "x \<in> set xs \<Longrightarrow> P x \<Longrightarrow> \<exists>y \<in> set xs. P y \<and> find P (xs @ ys) = Some y"
  by (induction xs) auto

lemma distinct_pairs:
  "distinct (map f xs) \<Longrightarrow> distinct (map (\<lambda>x. (f x, g x)) xs)"
  by (induction xs) (auto simp: image_iff)

lemma set_sjoin:
  "set (sjoin pred left right) =
     {mk_joined l r | l r. l \<in> set left \<and> r \<in> set right \<and> pred (geometry l) (geometry r)}"
  by (auto simp: sjoin_def)

lemma in_zone_iff:
  "m \<in> set (in_zone lib area obs lg) \<longleftrightarrow>
     (\<exists>l \<in> set (grows obs). \<exists>r \<in> set (relevant_logging lib area lg).
        geom_within lib (geometry l) (geometry r) \<and> m = set_status Inuti (mk_joined l r))"
  by (auto simp: in_zone_def set_sjoin)

lemma all_near_iff:
  "m \<in> set (all_near lib area (buffered lib obs) lg) \<longleftrightarrow>
     (\<exists>l \<in> set (grows obs). \<exists>r \<in> set (relevant_logging lib area lg).
        intersects lib (buffer lib (geometry l) 50) (geometry r)
        \<and> m = set_status Nara50m (mk_joined (l\<lparr>geometry := buffer lib (geometry l) 50\<rparr>) r))"
  by (auto simp: all_near_def sjoin_def buffered_def)

lemma matches_analyse_layer:
  "matches (analyse_layer lib area obs obs_buf lg) =
     keep_first [] (in_zone lib area obs lg @ all_near lib area obs_buf lg)"
  by (simp add: analyse_layer_def Let_def)


lemma length_filter_mono:
  "(\<And>x. x \<in> set xs \<Longrightarrow> P x \<Longrightarrow> Q x) \<Longrightarrow> length (filter P xs) \<le> length (filter Q xs)"
  by (induction xs) auto

lemma length_sjoin:
  "length (sjoin pred left right) =
     sum_list (map (\<lambda>l. length (filter (\<lambda>r. pred (geometry l) (geometry r)) right)) left)"
  by (simp add: sjoin_def length_concat comp_def)


lemma rect_law: "rect_within a b \<Longrightarrow> rect_intersects (rect_buffer a 50) b"
  by (auto simp: rect_within_def rect_intersects_def rect_buffer_def split: geom.splits)

lemma ex_study_area: "study_area rect_lib ex_obs = Rect (- 40) (- 40) 180 60"
  by (simp add: study_area_def rect_lib_def ex_obs_def rect_join_def rect_buffer_def)

lemma ex_relevant:
  "relevant_logging rect_lib (Rect (- 40) (- 40) 180 60) ex_layer = grows ex_layer"
  by (simp add: relevant_logging_def rect_lib_def ex_layer_def rect_intersects_def)

lemma ex_in_zone:
  "in_zone rect_lib (Rect (- 40) (- 40) 180 60) ex_obs ex_layer =
     [ex_inside, ex_inside\<lparr>index_right := 2, m_right := [(''Avvdatum'', Stamp (Timestamp 2022 7 1))]\<rparr>]"
  unfolding in_zone_def ex_relevant
  by (simp add: sjoin_def rect_lib_def ex_obs_def ex_layer_def rect_within_def
      set_status_def mk_joined_def ex_inside_def)

lemma ex_all_near:
  "all_near rect_lib (Rect (- 40) (- 40) 180 60) (buffered rect_lib ex_obs) ex_layer =
     [ex_inside\<lparr>m_geometry := Rect (- 40) (- 40) 60 60, Status_Analys := Nara50m\<rparr>,
      ex_inside\<lparr>m_geometry := Rect (- 40) (- 40) 60 60, index_right := 2,
                m_right := [(''Avvdatum'', Stamp (Timestamp 2022 7 1))], Status_Analys := Nara50m\<rparr>,
      ex_near]"
  unfolding all_near_def ex_relevant
  by (simp add: sjoin_def rect_lib_def ex_obs_def ex_layer_def rect_intersects_def
      rect_buffer_def buffered_def set_status_def mk_joined_def ex_inside_def ex_near_def)

lemma ex_matches:
  "matches (analyse_layer rect_lib (Rect (- 40) (- 40) 180 60) ex_obs (buffered rect_lib ex_obs) ex_layer)
     = [ex_inside, ex_near]"
  unfolding matches_analyse_layer ex_in_zone ex_all_near
  by (simp add: ex_inside_def ex_near_def)



text \<open>
  Claim C1. The merge step keeps at most one match record per observation index label,
  hence at most one per pair of observation and logging area. The index labels of the
  merged list are those of the two joins together; the record kept for a label is the
  first one with that label in the list that has the inside matches first; and when an
  observation has an inside match, its record is tagged Inuti. An observation that
  matches two polygons keeps only the first pairing.
\<close>

theorem merge_one_record_per_observation:
  "let iz = in_zone lib area obs lg;
       an = all_near lib area obs_buf lg;
       merged = matches (analyse_layer lib area obs obs_buf lg)
   in distinct (map m_idx merged)
    \<and> distinct (map (\<lambda>m. (m_idx m, index_right m)) merged)
    \<and> set (map m_idx merged) = set (map m_idx (iz @ an))
    \<and> (\<forall>m \<in> set merged. find (\<lambda>m'. m_idx m' = m_idx m) (iz @ an) = Some m)
    \<and> (\<forall>m \<in> set merged. (\<exists>m' \<in> set iz. m_idx m' = m_idx m) \<longrightarrow> Status_Analys m = Inuti)"
proof -
  define iz where "iz = in_zone lib area obs lg"
  define an where "an = all_near lib area obs_buf lg"
  define merged where "merged = keep_first [] (iz @ an)"
  have m: "matches (analyse_layer lib area obs obs_buf lg) = merged"
    by (simp add: analyse_layer_def merged_def iz_def an_def Let_def)
  have d1: "distinct (map m_idx merged)"
    unfolding merged_def by (rule keep_first_distinct)
  have d2: "distinct (map (\<lambda>m. (m_idx m, index_right m)) merged)"
    using d1 by (rule distinct_pairs)
  have s: "set (map m_idx merged) = set (map m_idx (iz @ an))"
    unfolding merged_def keep_first_idx by simp
  have f: "\<forall>m \<in> set merged. find (\<lambda>m'. m_idx m' = m_idx m) (iz @ an) = Some m"
    unfolding merged_def by (blast intro: keep_first_find)
  have iz_status: "\<forall>m \<in> set iz. Status_Analys m = Inuti"
    by (auto simp: iz_def in_zone_def set_status_def)
  have p: "\<forall>m \<in> set merged. (\<exists>m' \<in> set iz. m_idx m' = m_idx m) \<longrightarrow> Status_Analys m = Inuti"
  proof (intro ballI impI)
    fix m assume mm: "m \<in> set merged" and ex: "\<exists>m' \<in> set iz. m_idx m' = m_idx m"
    then obtain m' where m': "m' \<in> set iz" "m_idx m' = m_idx m" by blast
    from find_append_first [of m' iz "\<lambda>x. m_idx x = m_idx m" an] m'
    obtain y where y: "y \<in> set iz" "find (\<lambda>x. m_idx x = m_idx m) (iz @ an) = Some y" by blast
    with f mm have "y = m" by auto
    with y iz_status show "Status_Analys m = Inuti" by blast
  qed
  show ?thesis
    unfolding m Let_def iz_def [symmetric] an_def [symmetric]
    using d1 d2 s f p by blast
qed

theorem merge_one_record_per_observation_witness:
  "(let iz = in_zone rect_lib (Rect (- 40) (- 40) 180 60) ex_obs ex_layer;
        an = all_near rect_lib (Rect (- 40) (- 40) 180 60) (buffered rect_lib ex_obs) ex_layer;
        merged = matches (analyse_layer rect_lib (Rect (- 40) (- 40) 180 60) ex_obs
                            (buffered rect_lib ex_obs) ex_layer)
    in distinct (map m_idx merged)
     \<and> distinct (map (\<lambda>m. (m_idx m, index_right m)) merged)
     \<and> set (map m_idx merged) = set (map m_idx (iz @ an))
     \<and> (\<forall>m \<in> set merged. find (\<lambda>m'. m_idx m' = m_idx m) (iz @ an) = Some m)
     \<and> (\<forall>m \<in> set merged. (\<exists>m' \<in> set iz. m_idx m' = m_idx m) \<longrightarrow> Status_Analys m = Inuti))
   \<and> matches (analyse_layer rect_lib (Rect (- 40) (- 40) 180 60) ex_obs
                 (buffered rect_lib ex_obs) ex_layer) = [ex_inside, ex_near]
   \<and> length (in_zone rect_lib (Rect (- 40) (- 40) 180 60) ex_obs ex_layer) = 2"
  using merge_one_record_per_observation
          [of rect_lib "Rect (- 40) (- 40) 180 60" ex_obs ex_layer "buffered rect_lib ex_obs"]
        ex_matches ex_in_zone
  by simp



text \<open>
  Claim C6. Provided the geometry library answers that the 50-unit buffer of a geometry
  intersects whatever the geometry lies within, the pairs of index labels of the inside
  join of a layer are among those of the near join, and the inside join has no more rows
  than the near join.
\<close>

theorem inside_subset_of_near:
  assumes law: "\<And>a b. geom_within lib a b \<Longrightarrow> intersects lib (buffer lib a 50) b"
  shows "set (map (\<lambda>m. (m_idx m, index_right m)) (in_zone lib area obs lg))
           \<subseteq> set (map (\<lambda>m. (m_idx m, index_right m)) (all_near lib area (buffered lib obs) lg))
         \<and> length (in_zone lib area obs lg) \<le> length (all_near lib area (buffered lib obs) lg)"
proof
  show "set (map (\<lambda>m. (m_idx m, index_right m)) (in_zone lib area obs lg))
           \<subseteq> set (map (\<lambda>m. (m_idx m, index_right m)) (all_near lib area (buffered lib obs) lg))"
  proof
    fix x assume "x \<in> set (map (\<lambda>m. (m_idx m, index_right m)) (in_zone lib area obs lg))"
    then obtain l r where lr: "l \<in> set (grows obs)" "r \<in> set (relevant_logging lib area lg)"
      "geom_within lib (geometry l) (geometry r)" and x: "x = (idx l, idx r)"
      by (auto simp: in_zone_iff set_status_def mk_joined_def)
    let ?m = "set_status Nara50m (mk_joined (l\<lparr>geometry := buffer lib (geometry l) 50\<rparr>) r)"
    have "?m \<in> set (all_near lib area (buffered lib obs) lg)"
      unfolding all_near_iff using lr law by blast
    moreover have "(m_idx ?m, index_right ?m) = x"
      by (simp add: x set_status_def mk_joined_def)
    ultimately show "x \<in> set (map (\<lambda>m. (m_idx m, index_right m)) (all_near lib area (buffered lib obs) lg))"
      by force
  qed
  have "sum_list (map (\<lambda>l. length (filter (\<lambda>r. geom_within lib (geometry l) (geometry r))
                  (relevant_logging lib area lg))) (grows obs))
        \<le> sum_list (map (\<lambda>l. length (filter (\<lambda>r. intersects lib (buffer lib (geometry l) 50) (geometry r))
                  (relevant_logging lib area lg))) (grows obs))"
    by (rule sum_list_mono) (auto intro: length_filter_mono law)
  then show "length (in_zone lib area obs lg) \<le> length (all_near lib area (buffered lib obs) lg)"
    by (simp add: in_zone_def all_near_def length_sjoin buffered_def comp_def)
qed

theorem inside_subset_of_near_witness:
  "\<not> (\<exists>a b. geom_within rect_lib a b \<and> \<not> intersects rect_lib (buffer rect_lib a 50) b)
   \<and> set (map (\<lambda>m. (m_idx m, index_right m)) (in_zone rect_lib (Rect (- 40) (- 40) 180 60) ex_obs ex_layer))
       \<subseteq> set (map (\<lambda>m. (m_idx m, index_right m))
                (all_near rect_lib (Rect (- 40) (- 40) 180 60) (buffered rect_lib ex_obs) ex_layer))
   \<and> length (in_zone rect_lib (Rect (- 40) (- 40) 180 60) ex_obs ex_layer)
       \<le> length (all_near rect_lib (Rect (- 40) (- 40) 180 60) (buffered rect_lib ex_obs) ex_layer)
   \<and> length (in_zone rect_lib (Rect (- 40) (- 40) 180 60) ex_obs ex_layer) = 2
   \<and> length (all_near rect_lib (Rect (- 40) (- 40) 180 60) (buffered rect_lib ex_obs) ex_layer) = 3"
proof -
  have law: "\<And>a b. geom_within rect_lib a b \<Longrightarrow> intersects rect_lib (buffer rect_lib a 50) b"
    using rect_law by (simp add: rect_lib_def)
  have n: "length (in_zone rect_lib (Rect (- 40) (- 40) 180 60) ex_obs ex_layer) = 2"
    "length (all_near rect_lib (Rect (- 40) (- 40) 180 60) (buffered rect_lib ex_obs) ex_layer) = 3"
    unfolding ex_in_zone ex_all_near by simp_all
  from inside_subset_of_near [of rect_lib "Rect (- 40) (- 40) 180 60" ex_obs ex_layer, OF law] law n
  show ?thesis by blast
qed

text \<open>
  Claim C10. The matcher leaves the observation frame as it was: after
  \<^verbatim>\<open>run_spatial_analysis\<close> the store holds at the address of the observation frame
  what it held before, and so at every address that existed before; the buffered
  geometry is written to the frame that \<^verbatim>\<open>copy\<close> allocated.
\<close>

theorem observations_not_mutated:
  assumes "run_spatial_analysis lib a logging_data h = Some (results, h')"
  shows "h' ! a = h ! a \<and> take (length h) h' = h"
proof -
  from assms have a: "a < length h"
    by (auto simp: run_spatial_analysis_def split: if_splits)
  from assms show ?thesis
    unfolding run_spatial_analysis_eq [OF a] using a by (auto simp: nth_append)
qed

theorem observations_not_mutated_witness:
  "\<exists>results h'. run_spatial_analysis rect_lib 0 [(''utford'', ex_layer)] [ex_obs] = Some (results, h')
      \<and> h' ! 0 = [ex_obs] ! 0 \<and> take (length [ex_obs]) h' = [ex_obs]
      \<and> h' = [ex_obs, buffered rect_lib ex_obs]
      \<and> map geometry (grows (h' ! 1)) = [Rect (- 40) (- 40) 60 60, Rect 80 (- 40) 180 60]"
proof -
  have run: "run_spatial_analysis rect_lib 0 [(''utford'', ex_layer)] [ex_obs] =
      Some ([(''utford'', analyse_layer rect_lib (study_area rect_lib ex_obs) ex_obs
                             (buffered rect_lib ex_obs) ex_layer)],
            [ex_obs, buffered rect_lib ex_obs])"
    by (simp add: run_spatial_analysis_eq)
  have g: "map geometry (grows (buffered rect_lib ex_obs)) = [Rect (- 40) (- 40) 60 60, Rect 80 (- 40) 180 60]"
    by (simp add: buffered_def ex_obs_def rect_lib_def rect_buffer_def)
  from observations_not_mutated [OF run] run g show ?thesis by simp
qed

section \<open>Properties of the observation loader\<close>

lemma get_put_cell: "get_cell (put_cell c v r) c' = (if c' = c then v else get_cell r c')"
  by (induction r) (auto simp: get_cell_def)

lemma get_upd_cell:
  "get_cell (upd_cell c f r) c' = (if c' = c then f (get_cell r c) else get_cell r c')"
  by (simp add: upd_cell_def get_put_cell)

lemma get_select:
  "get_cell (map (\<lambda>c. (c, get_cell r c)) cols) c' = (if c' \<in> set cols then get_cell r c' else NaN)"
proof -
  have "map_of (map (\<lambda>c. (c, get_cell r c)) cols) c' =
          (if c' \<in> set cols then Some (get_cell r c') else None)"
    by (induction cols) auto
  then show ?thesis by (simp add: get_cell_def)
qed

lemma to_numeric_cases: "to_numeric lib c = NaN \<or> (\<exists>x. to_numeric lib c = Num x)"
  by (auto simp: to_numeric_def split: cell.splits option.splits)

lemma accuracy_ok_iff: "accuracy_ok c \<longleftrightarrow> (\<exists>a. c = Num a \<and> a \<le> 50)"
  by (cases c) (auto simp: accuracy_ok_def)

lemma clean_file_accuracy:
  assumes cf: "clean_file lib cfg f = Inr df" and r: "r \<in> set (f_rows df)"
    and cfg: "''Noggrannhet'' \<in> set (keep_cols cfg)"
  shows "if ''Noggrannhet'' \<in> set (xcolumns f)
         then \<exists>a. get_cell r ''Noggrannhet'' = Num a \<and> a \<le> 50
         else get_cell r ''Noggrannhet'' = NaN"
proof -
  let ?N = "''Noggrannhet''"
  define valid where "valid = filter (\<lambda>c. c \<in> set (xcolumns f)) (keep_cols cfg)"
  define d1 where "d1 = map (upd_cell ''Nord'' (to_numeric lib))
      (map (upd_cell ''Ost'' (to_numeric lib))
        (map (\<lambda>r. map (\<lambda>c. (c, get_cell r c)) valid) (xrows f)))"
  define d2 where "d2 = (if ?N \<in> set valid
      then filter (\<lambda>r. accuracy_ok (get_cell r ?N)) (map (upd_cell ?N (to_numeric lib)) d1)
      else d1)"
  define d3 where "d3 = (if ''Antal'' \<in> set valid
      then map (upd_cell ''Antal'' (to_numeric lib)) d2 else d2)"
  from cf have rows: "f_rows df = map (put_cell ''Kalla'' (Str (fname f)))
      (filter (\<lambda>r. get_cell r ''Ost'' \<noteq> NaN \<and> get_cell r ''Nord'' \<noteq> NaN) d3)"
    unfolding clean_file_def Let_def valid_def [symmetric]
    by (auto split: if_splits simp: d1_def d2_def d3_def)
  from r obtain r3 where r3: "r3 \<in> set d3" and g3: "get_cell r ?N = get_cell r3 ?N"
    unfolding rows by (auto simp: get_put_cell)
  from r3 obtain r2 where r2: "r2 \<in> set d2" and g2: "get_cell r3 ?N = get_cell r2 ?N"
    unfolding d3_def by (auto simp: get_upd_cell split: if_splits)
  have v: "?N \<in> set valid \<longleftrightarrow> ?N \<in> set (xcolumns f)"
    using cfg by (simp add: valid_def)
  show ?thesis
  proof (cases "?N \<in> set (xcolumns f)")
    case True
    with v r2 have "accuracy_ok (get_cell r2 ?N)" by (simp add: d2_def)
    with True g2 g3 show ?thesis by (simp add: accuracy_ok_iff)
  next
    case False
    with v r2 have "r2 \<in> set d1" by (simp add: d2_def)
    then obtain r0 where "get_cell r2 ?N = get_cell (map (\<lambda>c. (c, get_cell r0 c)) valid) ?N"
      unfolding d1_def by (auto simp: get_upd_cell)
    with False v have "get_cell r2 ?N = NaN" by (simp add: get_select)
    with False g2 g3 show ?thesis by simp
  qed
qed

lemma clean_file_columns:
  assumes "clean_file lib cfg f = Inr df"
  shows "f_columns df = filter (\<lambda>c. c \<in> set (xcolumns f)) (keep_cols cfg) @ [''Kalla'']"
  using assms by (auto simp: clean_file_def Let_def split: if_splits)

lemma clean_files_rows:
  assumes "clean_files lib cfg fs = Inr (dfs, out)" and "df \<in> set dfs"
  shows "\<exists>f \<in> set fs. clean_file lib cfg f = Inr df"
  using assms
  by (induction fs arbitrary: dfs out) (auto split: sum.splits)


lemma not_object_if_plain:
  "\<forall>r \<in> set rs. plain (get_cell r c) \<Longrightarrow> \<not> is_object rs c"
  by (auto simp: is_object_def plain_def list_all_iff)

lemma normalise_step_keeps:
  assumes "\<forall>r \<in> set (f_rows d). plain (get_cell r c)"
  shows "map (\<lambda>r. get_cell r c)
           (f_rows (fold (\<lambda>col d. if is_object (f_rows d) col \<and> col \<noteq> ''geometry''
                     then d\<lparr>f_rows := map (upd_cell col (as_text lib)) (f_rows d)\<rparr> else d) cols d))
         = map (\<lambda>r. get_cell r c) (f_rows d)"
  using assms
proof (induction cols arbitrary: d)
  case Nil
  then show ?case by simp
next
  case (Cons col cols)
  let ?d = "if is_object (f_rows d) col \<and> col \<noteq> ''geometry''
            then d\<lparr>f_rows := map (upd_cell col (as_text lib)) (f_rows d)\<rparr> else d"
  have same: "map (\<lambda>r. get_cell r c) (f_rows ?d) = map (\<lambda>r. get_cell r c) (f_rows d)"
  proof (cases "col = c")
    case True
    with Cons.prems not_object_if_plain [of "f_rows d" c] show ?thesis by simp
  next
    case False
    then show ?thesis by (simp add: get_upd_cell comp_def)
  qed
  have "\<forall>r \<in> set (f_rows ?d). plain (get_cell r c)"
  proof
    fix r assume "r \<in> set (f_rows ?d)"
    then have "get_cell r c \<in> (\<lambda>r. get_cell r c) ` set (f_rows ?d)" by (rule imageI)
    also have "\<dots> = set (map (\<lambda>r. get_cell r c) (f_rows ?d))" by (simp only: set_map)
    also have "\<dots> = (\<lambda>r. get_cell r c) ` set (f_rows d)" by (simp only: same set_map)
    finally show "plain (get_cell r c)" using Cons.prems by auto
  qed
  from Cons.IH [OF this] have
    "map (\<lambda>r. get_cell r c)
       (f_rows (fold (\<lambda>col d. if is_object (f_rows d) col \<and> col \<noteq> ''geometry''
                 then d\<lparr>f_rows := map (upd_cell col (as_text lib)) (f_rows d)\<rparr> else d) cols ?d))
     = map (\<lambda>r. get_cell r c) (f_rows ?d)" .
  with same show ?case by (simp only: fold_simps)
qed

lemma normalise_text_keeps:
  assumes "\<forall>r \<in> set (f_rows df). plain (get_cell r c)"
  shows "map (\<lambda>r. get_cell r c) (f_rows (normalise_text lib df)) = map (\<lambda>r. get_cell r c) (f_rows df)"
  unfolding normalise_text_def using assms by (rule normalise_step_keeps)

lemma attrs_to_geoframe: "map attrs (grows (to_geoframe lib c df)) = f_rows df"
proof -
  have "map snd (zip [0 ..< length xs] xs) = xs" for xs :: "row list"
    by (rule map_snd_zip) simp
  then show ?thesis
    by (simp add: to_geoframe_def comp_def case_prod_unfold)
qed

lemma concat_frames_rows:
  "r \<in> set (f_rows (concat_frames dfs)) \<Longrightarrow>
     \<exists>df \<in> set dfs. \<exists>r0 \<in> set (f_rows df).
        \<forall>c. get_cell r c = (if c \<in> (\<Union>d \<in> set dfs. set (f_columns d)) then get_cell r0 c else NaN)"
proof -
  assume "r \<in> set (f_rows (concat_frames dfs))"
  then obtain r0 where r0: "r0 \<in> set (concat (map f_rows dfs))"
    and r: "r = map (\<lambda>c. (c, get_cell r0 c)) (rev (remdups (rev (concat (map f_columns dfs)))))"
    unfolding concat_frames_def Let_def by auto
  from r0 obtain df where df: "df \<in> set dfs" "r0 \<in> set (f_rows df)" by auto
  have "set (rev (remdups (rev (concat (map f_columns dfs))))) = (\<Union>d \<in> set dfs. set (f_columns d))"
    by simp
  with r have "\<forall>c. get_cell r c = (if c \<in> (\<Union>d \<in> set dfs. set (f_columns d)) then get_cell r0 c else NaN)"
    by (simp only: get_select) simp
  with df show ?thesis by blast
qed

lemma ex_clean_file:
  "clean_file rect_lib get_config ex_xlsx =
     Inr \<lparr>f_columns = [''Artnamn'', ''Ost'', ''Nord'', ''Noggrannhet'', ''Startdatum'', ''Kalla''],
          f_rows = [[(''Artnamn'', Str ''Knarot''), (''Ost'', Num 130), (''Nord'', Num 10),
                     (''Noggrannhet'', Num 10), (''Startdatum'', Stamp (Timestamp 2021 8 2)),
                     (''Kalla'', Str ''fynd.xlsx'')]]\<rparr>"
  by (simp add: clean_file_def get_config_def ex_xlsx_def Let_def get_cell_def upd_cell_def
      to_numeric_def accuracy_ok_def)

lemma ex_combined:
  "to_geoframe rect_lib ''EPSG:3006''
     (normalise_text rect_lib (concat_frames
        [\<lparr>f_columns = [''Artnamn'', ''Ost'', ''Nord'', ''Noggrannhet'', ''Startdatum'', ''Kalla''],
          f_rows = [[(''Artnamn'', Str ''Knarot''), (''Ost'', Num 130), (''Nord'', Num 10),
                     (''Noggrannhet'', Num 10), (''Startdatum'', Stamp (Timestamp 2021 8 2)),
                     (''Kalla'', Str ''fynd.xlsx'')]]\<rparr>])) = ex_gdf"
  by (simp add: to_geoframe_def normalise_text_def concat_frames_def is_object_def as_text_def
      get_cell_def upd_cell_def rect_lib_def rect_point_def ex_gdf_def Let_def)

lemma ex_load_observations:
  "load_observations rect_lib get_config (ex_world\<lparr>write_fails := f\<rparr>) =
     (if f ''Art_cache.parquet''
      then Inr (ex_gdf, ex_world\<lparr>write_fails := f\<rparr>,
                [ReadingExcel, ReadingFile ''fynd.xlsx'', CacheWarning])
      else Inr (ex_gdf, ex_world\<lparr>write_fails := f, parquet := [''Art_cache.parquet'' \<mapsto> ex_gdf]\<rparr>,
                [ReadingExcel, ReadingFile ''fynd.xlsx'', CacheCreated 1]))"
proof -
  have c: "cache_obs get_config = ''Art_cache.parquet''" "cfg_crs get_config = ''EPSG:3006''"
    by (simp_all add: get_config_def)
  have w: "parquet (ex_world\<lparr>write_fails := f\<rparr>) = Map.empty"
    "xlsx_files (ex_world\<lparr>write_fails := f\<rparr>) = [ex_xlsx]"
    by (simp_all add: ex_world_def)
  have n: "length (grows ex_gdf) = 1" "fname ex_xlsx = ''fynd.xlsx''"
    by (simp_all add: ex_gdf_def ex_xlsx_def)
  show ?thesis
    unfolding load_observations_def c w
    by (simp add: ex_clean_file ex_combined n)
qed

section \<open>Properties of the layer loader\<close>

lemma load_observations_write_failure:
  "map_sum id fst (load_observations lib cfg (w\<lparr>write_fails := f\<rparr>))
     = map_sum id fst (load_observations lib cfg w)"
  by (auto simp: load_observations_def Let_def split: option.splits sum.splits)

lemma load_observations_warns:
  assumes "parquet w (cache_obs cfg) = None" and "write_fails w (cache_obs cfg)"
    and "load_observations lib cfg w = Inr (gdf, w', out)"
  shows "w' = w \<and> last out = CacheWarning"
  using assms
  by (auto simp: load_observations_def Let_def split: if_splits sum.splits)

lemma load_layer_write_failure:
  assumes "map_of (cache_layers cfg) key = Some p" and "parquet w p = None"
    and "write_fails w p" and "fetch_layer lib cfg bb key fn p w = Inr (gdf0, out0)"
  shows "load_layer lib cfg bb y key fn w = Inl (WriteError p)"
  using assms by (simp add: load_layer_def Let_def split: prod.splits)

lemma load_layer_cached:
  assumes "map_of (cache_layers cfg) key = Some p" and "parquet w p = Some c"
  shows "load_layer lib cfg bb y key fn w =
           Inr (fst (filter_on_time lib key y c), w,
                CacheLoadLayer key # snd (filter_on_time lib key y c))"
  using assms by (simp add: load_layer_def fetch_layer_def Let_def split: prod.splits)

lemma load_layers_cached:
  assumes "list_all2 (\<lambda>(key, fn) c. \<exists>p. map_of (cache_layers cfg) key = Some p \<and> parquet w p = Some c)
             ls caches"
  shows "load_layers lib cfg bb y ls w =
           Inr (map2 (\<lambda>(key, fn) c. (key, fst (filter_on_time lib key y c))) ls caches, w,
                concat (map2 (\<lambda>(key, fn) c. CacheLoadLayer key # snd (filter_on_time lib key y c))
                          ls caches))"
  using assms
proof (induction ls caches rule: list_all2_induct)
  case Nil
  then show ?case by simp
next
  case (Cons l ls c cs)
  obtain key fn where l: "l = (key, fn)" by (cases l)
  with Cons.hyps obtain p where "map_of (cache_layers cfg) key = Some p" "parquet w p = Some c"
    by auto
  from load_layer_cached [OF this, of lib bb y fn] Cons.IH l show ?case by simp
qed

lemma year_ok_iff: "year_ok y c \<longleftrightarrow> (\<exists>t. c = Stamp t \<and> y \<le> year t)"
  by (cases c) (auto simp: year_ok_def)

lemma put_cell_same: "map_of r c = Some v \<Longrightarrow> put_cell c v r = r"
  by (induction r) (auto split: if_splits)

lemma upd_cell_stamp:
  assumes "year_ok y (get_cell r c)"
  shows "upd_cell c (to_datetime lib) r = r"
proof -
  from assms obtain t where t: "get_cell r c = Stamp t" by (auto simp: year_ok_iff)
  then have "map_of r c = Some (Stamp t)"
    by (auto simp: get_cell_def split: option.splits)
  with t show ?thesis by (simp add: upd_cell_def to_datetime_def put_cell_same)
qed

lemma year_filter_id:
  assumes "\<forall>r \<in> set (grows c). year_ok y (get_cell (attrs r) dc)"
  shows "year_filter lib dc y c = c"
proof -
  have "map (\<lambda>r. r\<lparr>attrs := upd_cell dc (to_datetime lib) (attrs r)\<rparr>) (grows c) = grows c"
    by (rule map_idI) (simp add: upd_cell_stamp [OF assms [rule_format]])
  with assms show ?thesis by (simp add: year_filter_def)
qed

lemma year_filter_rows:
  "grows (year_filter lib dc y g) =
     map (\<lambda>r. r\<lparr>attrs := upd_cell dc (to_datetime lib) (attrs r)\<rparr>)
       (filter (\<lambda>r. \<exists>t. to_datetime lib (get_cell (attrs r) dc) = Stamp t \<and> y \<le> year t) (grows g))"
  by (simp add: year_filter_def filter_map comp_def get_upd_cell year_ok_iff)

section \<open>Properties of the reporter\<close>

lemma length_remdups_card: "length (remdups xs) = card (set xs)"
  by (simp add: length_remdups_card_conv)


section \<open>Claims about the loaders and the reporter\<close>

lemma ex_world_id: "ex_world\<lparr>write_fails := (\<lambda>p. False)\<rparr> = ex_world"
  by (simp add: ex_world_def)

lemma ex_load_observations_ok:
  "load_observations rect_lib get_config ex_world =
     Inr (ex_gdf, ex_world\<lparr>parquet := [''Art_cache.parquet'' \<mapsto> ex_gdf]\<rparr>,
          [ReadingExcel, ReadingFile ''fynd.xlsx'', CacheCreated 1])"
  using ex_load_observations [of "\<lambda>p. False"] by (simp add: ex_world_id)

lemma accuracy_rows_bound:
  assumes cfg: "''Noggrannhet'' \<in> set (keep_cols cfg)"
    and nocache: "parquet w (cache_obs cfg) = None"
    and load: "load_observations lib cfg w = Inr (gdf, w', out)"
  shows "\<forall>r \<in> set (grows gdf).
           (\<exists>a. get_cell (attrs r) ''Noggrannhet'' = Num a \<and> a \<le> 50)
           \<or> (get_cell (attrs r) ''Noggrannhet'' = NaN
               \<and> (\<exists>f \<in> set (xlsx_files w). ''Noggrannhet'' \<notin> set (xcolumns f)))"
proof -
  let ?N = "''Noggrannhet''"
  let ?P = "\<lambda>c. (\<exists>a. c = Num a \<and> a \<le> 50)
                \<or> (c = NaN \<and> (\<exists>f \<in> set (xlsx_files w). ?N \<notin> set (xcolumns f)))"
  from load nocache obtain dfs out0 where
    cf: "clean_files lib cfg (xlsx_files w) = Inr (dfs, out0)"
    and gdf: "gdf = to_geoframe lib (cfg_crs cfg) (normalise_text lib (concat_frames dfs))"
    by (auto simp: load_observations_def Let_def split: if_splits sum.splits)
  have conc: "?P (get_cell r ?N)" if r: "r \<in> set (f_rows (concat_frames dfs))" for r
  proof -
    from concat_frames_rows [OF r] obtain df r0 where
      df: "df \<in> set dfs" and r0: "r0 \<in> set (f_rows df)"
      and g: "get_cell r ?N = (if ?N \<in> (\<Union>d \<in> set dfs. set (f_columns d)) then get_cell r0 ?N else NaN)"
      by blast
    from clean_files_rows [OF cf df] obtain f where
      f: "f \<in> set (xlsx_files w)" and c: "clean_file lib cfg f = Inr df" by blast
    show ?thesis
    proof (cases "?N \<in> set (xcolumns f)")
      case True
      with cfg clean_file_columns [OF c] have "?N \<in> set (f_columns df)" by simp
      with df have "?N \<in> (\<Union>d \<in> set dfs. set (f_columns d))" by blast
      with g have "get_cell r ?N = get_cell r0 ?N" by simp
      with clean_file_accuracy [OF c r0 cfg] True show ?thesis by simp
    next
      case False
      with clean_file_accuracy [OF c r0 cfg] have "get_cell r0 ?N = NaN" by simp
      with g have "get_cell r ?N = NaN" by simp
      with f False show ?thesis by blast
    qed
  qed
  have pl: "\<forall>r \<in> set (f_rows (concat_frames dfs)). plain (get_cell r ?N)"
  proof
    fix r assume "r \<in> set (f_rows (concat_frames dfs))"
    from conc [OF this] show "plain (get_cell r ?N)" by (auto simp: plain_def)
  qed
  show ?thesis
  proof
    fix r assume "r \<in> set (grows gdf)"
    then have "attrs r \<in> set (map attrs (grows gdf))" by simp
    then have "attrs r \<in> set (f_rows (normalise_text lib (concat_frames dfs)))"
      unfolding gdf attrs_to_geoframe .
    then have "get_cell (attrs r) ?N \<in>
        set (map (\<lambda>r. get_cell r ?N) (f_rows (normalise_text lib (concat_frames dfs))))"
      by simp
    then have "get_cell (attrs r) ?N \<in> set (map (\<lambda>r. get_cell r ?N) (f_rows (concat_frames dfs)))"
      unfolding normalise_text_keeps [OF pl] .
    then obtain r1 where "r1 \<in> set (f_rows (concat_frames dfs))"
      "get_cell (attrs r) ?N = get_cell r1 ?N" by auto
    with conc [of r1] show "?P (get_cell (attrs r) ?N)" by simp
  qed
qed


lemma clean_files_all2:
  assumes "clean_files lib cfg fs = Inr (dfs, out)"
  shows "list_all2 (\<lambda>f df. clean_file lib cfg f = Inr df) fs dfs"
  using assms
  by (induction fs arbitrary: dfs out) (auto split: sum.splits)

lemma clean_file_coord_columns:
  assumes "clean_file lib cfg f = Inr df"
  shows "''Ost'' \<in> set (f_columns df) \<and> ''Nord'' \<in> set (f_columns df)"
  using assms by (auto simp: clean_file_def Let_def split: if_splits)

lemma clean_file_exact:
  assumes cf: "clean_file lib cfg f = Inr df"
    and cfg: "''Noggrannhet'' \<in> set (keep_cols cfg)"
  shows "map (\<lambda>r. map (get_cell r) [''Ost'', ''Nord'', ''Noggrannhet'']) (f_rows df)
           = map (cleaned_cells lib f) (filter (keeps_row lib f) (xrows f))"
proof -
  let ?N = "''Noggrannhet''"
  define valid where "valid = filter (\<lambda>c. c \<in> set (xcolumns f)) (keep_cols cfg)"
  define g0 where "g0 = (\<lambda>r. upd_cell ''Nord'' (to_numeric lib)
      (upd_cell ''Ost'' (to_numeric lib) (map (\<lambda>c. (c, get_cell r c)) valid)))"
  define g1 where "g1 = (\<lambda>r. if ?N \<in> set valid then upd_cell ?N (to_numeric lib) (g0 r) else g0 r)"
  define g2 where "g2 = (\<lambda>r. if ''Antal'' \<in> set valid
      then upd_cell ''Antal'' (to_numeric lib) (g1 r) else g1 r)"
  define h where "h = (\<lambda>r. put_cell ''Kalla'' (Str (fname f)) (g2 r))"
  define K where "K = (\<lambda>r. (?N \<in> set valid \<longrightarrow> accuracy_ok (get_cell (g1 r) ?N))
      \<and> get_cell (g2 r) ''Ost'' \<noteq> NaN \<and> get_cell (g2 r) ''Nord'' \<noteq> NaN)"
  from cf have on: "''Ost'' \<in> set valid" "''Nord'' \<in> set valid"
    unfolding clean_file_def Let_def valid_def [symmetric] by (auto split: if_splits)
  have v: "?N \<in> set valid \<longleftrightarrow> ?N \<in> set (xcolumns f)"
    using cfg by (simp add: valid_def)
  define d1 where "d1 = map (upd_cell ''Nord'' (to_numeric lib))
      (map (upd_cell ''Ost'' (to_numeric lib))
        (map (\<lambda>r. map (\<lambda>c. (c, get_cell r c)) valid) (xrows f)))"
  define d2 where "d2 = (if ?N \<in> set valid
      then filter (\<lambda>r. accuracy_ok (get_cell r ?N)) (map (upd_cell ?N (to_numeric lib)) d1)
      else d1)"
  define d3 where "d3 = (if ''Antal'' \<in> set valid
      then map (upd_cell ''Antal'' (to_numeric lib)) d2 else d2)"
  from cf have rows0: "f_rows df = map (put_cell ''Kalla'' (Str (fname f)))
      (filter (\<lambda>r. get_cell r ''Ost'' \<noteq> NaN \<and> get_cell r ''Nord'' \<noteq> NaN) d3)"
    unfolding clean_file_def Let_def valid_def [symmetric]
    by (auto split: if_splits simp: d1_def d2_def d3_def)
  have e1: "d1 = map g0 (xrows f)"
    by (simp add: d1_def g0_def comp_def)
  have e2: "d2 = map g1 (filter (\<lambda>r. ?N \<in> set valid \<longrightarrow> accuracy_ok (get_cell (g1 r) ?N)) (xrows f))"
    by (simp add: d2_def e1 g1_def filter_map comp_def)
  have e3: "d3 = map g2 (filter (\<lambda>r. ?N \<in> set valid \<longrightarrow> accuracy_ok (get_cell (g1 r) ?N)) (xrows f))"
    by (simp add: d3_def e2 g2_def comp_def)
  have rows: "f_rows df = map h (filter K (xrows f))"
    unfolding rows0 e3 by (simp add: filter_map comp_def h_def K_def)
  have g0c: "get_cell (g0 r) c =
      (if c = ''Nord'' then to_numeric lib (get_cell r ''Nord'')
       else if c = ''Ost'' then to_numeric lib (get_cell r ''Ost'')
       else if c \<in> set valid then get_cell r c else NaN)" for r c
    using on by (simp add: g0_def get_upd_cell get_select)
  have g1c: "get_cell (g1 r) ?N = (if ?N \<in> set valid then to_numeric lib (get_cell r ?N) else NaN)"
    "get_cell (g1 r) ''Ost'' = to_numeric lib (get_cell r ''Ost'')"
    "get_cell (g1 r) ''Nord'' = to_numeric lib (get_cell r ''Nord'')" for r
    by (simp_all add: g1_def get_upd_cell g0c)
  have g2c: "get_cell (g2 r) ?N = get_cell (g1 r) ?N"
    "get_cell (g2 r) ''Ost'' = get_cell (g1 r) ''Ost''"
    "get_cell (g2 r) ''Nord'' = get_cell (g1 r) ''Nord''" for r
    by (simp_all add: g2_def get_upd_cell)
  have Kk: "K r = keeps_row lib f r" for r
    by (simp add: K_def keeps_row_def g2c g1c v)
  have hc: "map (get_cell (h r)) [''Ost'', ''Nord'', ?N] = cleaned_cells lib f r" for r
    by (simp add: h_def get_put_cell g2c g1c v cleaned_cells_def)
  have K: "K = keeps_row lib f"
    by (rule ext) (rule Kk)
  have H: "(\<lambda>r. map (get_cell (h r)) [''Ost'', ''Nord'', ?N]) = cleaned_cells lib f"
    by (rule ext) (rule hc)
  have "map (\<lambda>r. map (get_cell r) [''Ost'', ''Nord'', ?N]) (map h (filter K (xrows f)))
          = map (\<lambda>r. map (get_cell (h r)) [''Ost'', ''Nord'', ?N]) (filter K (xrows f))"
    by (simp only: map_map comp_def)
  then show ?thesis
    unfolding rows K H .
qed

lemma triple_maps:
  "map (\<lambda>r. map (get_cell r) [a, b, c]) xs =
     map (\<lambda>(x, y, z). [x, y, z])
       (zip (map (\<lambda>r. get_cell r a) xs) (zip (map (\<lambda>r. get_cell r b) xs) (map (\<lambda>r. get_cell r c) xs)))"
  by (induction xs) auto

lemma plain_to_numeric: "plain (to_numeric lib c)"
  using to_numeric_cases [of lib c] by (auto simp: plain_def)

lemma plain_cleaned: "x \<in> set (cleaned_cells lib f r) \<Longrightarrow> plain x"
proof -
  have "plain NaN" by (simp add: plain_def)
  moreover assume "x \<in> set (cleaned_cells lib f r)"
  ultimately show ?thesis
    by (auto simp: cleaned_cells_def plain_to_numeric split: if_splits)
qed

lemma normalise_text_keeps_cells:
  assumes "\<forall>r \<in> set (f_rows df). \<forall>x \<in> set (map (get_cell r) [a, b, c]). plain x"
  shows "map (\<lambda>r. map (get_cell r) [a, b, c]) (f_rows (normalise_text lib df))
           = map (\<lambda>r. map (get_cell r) [a, b, c]) (f_rows df)"
proof -
  from assms have "\<forall>r \<in> set (f_rows df). plain (get_cell r a)"
    "\<forall>r \<in> set (f_rows df). plain (get_cell r b)" "\<forall>r \<in> set (f_rows df). plain (get_cell r c)"
    by simp_all
  then show ?thesis
    unfolding triple_maps by (simp only: normalise_text_keeps)
qed

lemma concat_all2:
  "list_all2 (\<lambda>x y. F x = G y) xs ys \<Longrightarrow> concat (map F xs) = concat (map G ys)"
  by (induction xs ys rule: list_all2_induct) auto

lemma concat_frames_cells:
  assumes cf: "clean_files lib cfg fs = Inr (dfs, out)"
    and cfg: "''Noggrannhet'' \<in> set (keep_cols cfg)"
  shows "map (\<lambda>r. map (get_cell r) [''Ost'', ''Nord'', ''Noggrannhet'']) (f_rows (concat_frames dfs))
           = concat (map (\<lambda>f. map (cleaned_cells lib f) (filter (keeps_row lib f) (xrows f))) fs)"
proof -
  let ?N = "''Noggrannhet''"
  let ?P = "\<lambda>r. map (get_cell r) [''Ost'', ''Nord'', ?N]"
  let ?cols = "rev (remdups (rev (concat (map f_columns dfs))))"
  have cols: "set ?cols = (\<Union>d \<in> set dfs. set (f_columns d))" by simp
  have same: "?P (map (\<lambda>c. (c, get_cell r c)) ?cols) = ?P r"
    if r: "r \<in> set (concat (map f_rows dfs))" for r
  proof -
    from r obtain df where df: "df \<in> set dfs" and rdf: "r \<in> set (f_rows df)" by auto
    from clean_files_rows [OF cf df] obtain f where c: "clean_file lib cfg f = Inr df" by blast
    from clean_file_coord_columns [OF c] df
    have o: "''Ost'' \<in> set ?cols" "''Nord'' \<in> set ?cols" unfolding cols by blast+
    have n: "get_cell (map (\<lambda>c. (c, get_cell r c)) ?cols) ?N = get_cell r ?N"
    proof (cases "?N \<in> set (xcolumns f)")
      case True
      with cfg clean_file_columns [OF c] have "?N \<in> set (f_columns df)" by simp
      with df have "?N \<in> set ?cols" unfolding cols by blast
      then show ?thesis by (simp only: get_select if_True)
    next
      case False
      with clean_file_accuracy [OF c rdf cfg] have "get_cell r ?N = NaN" by simp
      then show ?thesis by (simp only: get_select if_cancel split: if_splits)
    qed
    from o have "get_cell (map (\<lambda>c. (c, get_cell r c)) ?cols) ''Ost'' = get_cell r ''Ost''"
      "get_cell (map (\<lambda>c. (c, get_cell r c)) ?cols) ''Nord'' = get_cell r ''Nord''"
      by (simp_all only: get_select if_True)
    with n show ?thesis by simp
  qed
  have "map ?P (f_rows (concat_frames dfs))
          = map (\<lambda>r. ?P (map (\<lambda>c. (c, get_cell r c)) ?cols)) (concat (map f_rows dfs))"
    by (simp add: concat_frames_def Let_def comp_def)
  also have "\<dots> = map ?P (concat (map f_rows dfs))"
    by (rule map_cong [OF refl]) (rule same)
  also have "\<dots> = concat (map (\<lambda>df. map ?P (f_rows df)) dfs)"
    by (simp add: map_concat comp_def)
  also have "\<dots> = concat (map (\<lambda>f. map (cleaned_cells lib f) (filter (keeps_row lib f) (xrows f))) fs)"
  proof (rule concat_all2 [symmetric])
    show "list_all2 (\<lambda>f df. map (cleaned_cells lib f) (filter (keeps_row lib f) (xrows f))
                             = map ?P (f_rows df)) fs dfs"
      using clean_files_all2 [OF cf]
    proof (rule list_all2_mono)
      fix f df assume "clean_file lib cfg f = Inr df"
      from clean_file_exact [OF this cfg]
      show "map (cleaned_cells lib f) (filter (keeps_row lib f) (xrows f)) = map ?P (f_rows df)"
        by (rule sym)
    qed
  qed
  finally show ?thesis .
qed


lemma ex_clean_file_plain:
  "clean_file rect_lib get_config ex_xlsx_plain =
     Inr \<lparr>f_columns = [''Artnamn'', ''Ost'', ''Nord'', ''Startdatum'', ''Kalla''],
          f_rows = [[(''Artnamn'', Str ''Knarot''), (''Ost'', Num 15), (''Nord'', Num 15),
                     (''Startdatum'', Stamp (Timestamp 2018 5 4)), (''Kalla'', Str ''aldre.xlsx'')]]\<rparr>"
  by (simp add: clean_file_def get_config_def ex_xlsx_plain_def Let_def get_cell_def upd_cell_def
      to_numeric_def rect_lib_def rect_parse_numeric_def digit_of_def)

lemma ex_two_loaded:
  "\<exists>gdf w' out. load_observations rect_lib get_config ex_world_two = Inr (gdf, w', out)"
proof -
  have w: "parquet ex_world_two = Map.empty" "xlsx_files ex_world_two = [ex_xlsx, ex_xlsx_plain]"
    by (simp_all add: ex_world_two_def ex_world_def)
  show ?thesis
    unfolding load_observations_def w
    by (simp add: ex_clean_file ex_clean_file_plain Let_def)
qed

lemma ex_two_cells:
  "concat (map (\<lambda>f. map (cleaned_cells rect_lib f) (filter (keeps_row rect_lib f) (xrows f)))
             (xlsx_files ex_world_two))
     = [[Num 130, Num 10, Num 10], [Num 15, Num 15, NaN]]"
  by (simp add: ex_world_two_def ex_world_def ex_xlsx_def ex_xlsx_plain_def keeps_row_def
      cleaned_cells_def get_cell_def to_numeric_def accuracy_ok_def rect_lib_def
      rect_parse_numeric_def digit_of_def)

text \<open>
  Claim C2, as amended. When the observation loader parses the spreadsheets (no cache
  file), the observations it returns are, spreadsheet by spreadsheet and in order, the
  rows whose coerced coordinates are both present and whose coerced accuracy, where the
  spreadsheet has an accuracy column, is a number of at most 50. A row of such a
  spreadsheet with a missing accuracy is dropped, just as one above 50; the rows of a
  spreadsheet without an accuracy column are not filtered by accuracy and come back with
  a missing accuracy. So every returned observation has an accuracy of at most 50, or a
  missing accuracy, the latter only when some spreadsheet has no accuracy column.
\<close>

theorem accuracy_filter:
  assumes cfg: "''Noggrannhet'' \<in> set (keep_cols cfg)"
    and nocache: "parquet w (cache_obs cfg) = None"
    and load: "load_observations lib cfg w = Inr (gdf, w', out)"
  shows "map (\<lambda>r. map (get_cell (attrs r)) [''Ost'', ''Nord'', ''Noggrannhet'']) (grows gdf)
           = concat (map (\<lambda>f. map (cleaned_cells lib f) (filter (keeps_row lib f) (xrows f)))
                       (xlsx_files w))
       \<and> (\<forall>r \<in> set (grows gdf).
            (\<exists>a. get_cell (attrs r) ''Noggrannhet'' = Num a \<and> a \<le> 50)
            \<or> (get_cell (attrs r) ''Noggrannhet'' = NaN
                \<and> (\<exists>f \<in> set (xlsx_files w). ''Noggrannhet'' \<notin> set (xcolumns f))))"
proof
  let ?cs = "[''Ost'', ''Nord'', ''Noggrannhet'']"
  from load nocache obtain dfs out0 where
    cf: "clean_files lib cfg (xlsx_files w) = Inr (dfs, out0)"
    and gdf: "gdf = to_geoframe lib (cfg_crs cfg) (normalise_text lib (concat_frames dfs))"
    by (auto simp: load_observations_def Let_def split: if_splits sum.splits)
  have cells: "map (\<lambda>r. map (get_cell r) ?cs) (f_rows (concat_frames dfs))
      = concat (map (\<lambda>f. map (cleaned_cells lib f) (filter (keeps_row lib f) (xrows f))) (xlsx_files w))"
    using cf cfg by (rule concat_frames_cells)
  have pl: "\<forall>r \<in> set (f_rows (concat_frames dfs)). \<forall>x \<in> set (map (get_cell r) ?cs). plain x"
  proof
    fix r assume "r \<in> set (f_rows (concat_frames dfs))"
    then have "map (get_cell r) ?cs \<in> set (map (\<lambda>r. map (get_cell r) ?cs) (f_rows (concat_frames dfs)))"
      by (simp only: set_map) (rule imageI)
    then obtain f r0 where "map (get_cell r) ?cs = cleaned_cells lib f r0"
      unfolding cells by auto
    then show "\<forall>x \<in> set (map (get_cell r) ?cs). plain x"
      using plain_cleaned [of _ lib f r0] by simp
  qed
  have "map (\<lambda>r. map (get_cell (attrs r)) ?cs) (grows gdf)
          = map (\<lambda>r. map (get_cell r) ?cs) (map attrs (grows gdf))"
    by (simp only: map_map comp_def)
  also have "\<dots> = map (\<lambda>r. map (get_cell r) ?cs) (f_rows (normalise_text lib (concat_frames dfs)))"
    unfolding gdf attrs_to_geoframe ..
  also have "\<dots> = map (\<lambda>r. map (get_cell r) ?cs) (f_rows (concat_frames dfs))"
    using pl by (rule normalise_text_keeps_cells)
  finally show "map (\<lambda>r. map (get_cell (attrs r)) ?cs) (grows gdf)
           = concat (map (\<lambda>f. map (cleaned_cells lib f) (filter (keeps_row lib f) (xrows f)))
                       (xlsx_files w))"
    using cells by simp
  show "\<forall>r \<in> set (grows gdf).
            (\<exists>a. get_cell (attrs r) ''Noggrannhet'' = Num a \<and> a \<le> 50)
            \<or> (get_cell (attrs r) ''Noggrannhet'' = NaN
                \<and> (\<exists>f \<in> set (xlsx_files w). ''Noggrannhet'' \<notin> set (xcolumns f)))"
    using cfg nocache load by (rule accuracy_rows_bound)
qed

theorem accuracy_filter_witness:
  "''Noggrannhet'' \<in> set (keep_cols get_config)
   \<and> parquet ex_world_two (cache_obs get_config) = None
   \<and> xlsx_files ex_world_two = [ex_xlsx, ex_xlsx_plain]
   \<and> ''Noggrannhet'' \<in> set (xcolumns ex_xlsx)
   \<and> ''Noggrannhet'' \<notin> set (xcolumns ex_xlsx_plain)
   \<and> (\<exists>gdf w' out. load_observations rect_lib get_config ex_world_two = Inr (gdf, w', out)
         \<and> map (\<lambda>r. map (get_cell (attrs r)) [''Ost'', ''Nord'', ''Noggrannhet'']) (grows gdf)
             = [[Num 130, Num 10, Num 10], [Num 15, Num 15, NaN]])"
proof -
  have k: "''Noggrannhet'' \<in> set (keep_cols get_config)" by (simp add: get_config_def)
  have c: "parquet ex_world_two (cache_obs get_config) = None"
    by (simp add: ex_world_two_def ex_world_def)
  have f: "xlsx_files ex_world_two = [ex_xlsx, ex_xlsx_plain]"
    "''Noggrannhet'' \<in> set (xcolumns ex_xlsx)" "''Noggrannhet'' \<notin> set (xcolumns ex_xlsx_plain)"
    by (simp_all add: ex_world_two_def ex_world_def ex_xlsx_def ex_xlsx_plain_def)
  from ex_two_loaded obtain gdf w' out where
    l: "load_observations rect_lib get_config ex_world_two = Inr (gdf, w', out)" by blast
  from accuracy_filter [OF k c l] ex_two_cells
  have m: "map (\<lambda>r. map (get_cell (attrs r)) [''Ost'', ''Nord'', ''Noggrannhet'']) (grows gdf)
             = [[Num 130, Num 10, Num 10], [Num 15, Num 15, NaN]]"
    by simp
  have "\<exists>gdf w' out. load_observations rect_lib get_config ex_world_two = Inr (gdf, w', out)
         \<and> map (\<lambda>r. map (get_cell (attrs r)) [''Ost'', ''Nord'', ''Noggrannhet'']) (grows gdf)
             = [[Num 130, Num 10, Num 10], [Num 15, Num 15, NaN]]"
    using l m by (intro exI conjI)
  with k c f show ?thesis by (intro conjI)
qed

theorem missing_accuracy_dropped_counterexample:
  "parquet ex_world (cache_obs get_config) = None
   \<and> xlsx_files ex_world = [ex_xlsx]
   \<and> length (xrows ex_xlsx) = 3
   \<and> get_cell (xrows ex_xlsx ! 2) ''Noggrannhet'' = NaN
   \<and> get_cell (xrows ex_xlsx ! 2) ''Ost'' = Num 10
   \<and> get_cell (xrows ex_xlsx ! 2) ''Nord'' = Num 10
   \<and> map_sum id fst (load_observations rect_lib get_config ex_world) = Inr ex_gdf
   \<and> map (\<lambda>r. get_cell (attrs r) ''Noggrannhet'') (grows ex_gdf) = [Num 10]"
  by (simp add: ex_load_observations_ok) (simp add: ex_world_def ex_xlsx_def ex_gdf_def get_cell_def)

text \<open>
  Claim C3, as amended. The coverage percentage of a layer is the number of distinct
  affected polygons divided by the number of relevant polygons, times 100, whenever the
  number of relevant polygons is positive. The division is not guarded: for a layer
  without relevant polygons it raises ZeroDivisionError and there is no percentage.
\<close>

theorem coverage_percentage:
  "(total_relevant_count res = 0 \<longrightarrow> describe_layer (Some res) = Inl ZeroDivisionError)
   \<and> (0 < total_relevant_count res \<longrightarrow>
        (\<exists>r. describe_layer (Some res) = Inr r
           \<and> affected_areas r = card (index_right ` set (matches res))
           \<and> total_relevant r = total_relevant_count res
           \<and> andel_omraden r =
               real (card (index_right ` set (matches res))) / real (total_relevant_count res) * 100))"
  by (simp add: describe_layer_def Let_def length_remdups_card)

theorem coverage_percentage_witness:
  "0 < total_relevant_count (analyse_layer rect_lib (Rect (- 40) (- 40) 180 60) ex_obs
                               (buffered rect_lib ex_obs) ex_layer)
   \<and> (\<exists>r. describe_layer (Some (analyse_layer rect_lib (Rect (- 40) (- 40) 180 60) ex_obs
                                   (buffered rect_lib ex_obs) ex_layer)) = Inr r
          \<and> affected_areas r = 2 \<and> total_relevant r = 3 \<and> andel_omraden r = 200 / 3)
   \<and> total_relevant_count \<lparr>matches = ([] :: geom match list), total_relevant_count = 0\<rparr> = 0
   \<and> describe_layer (Some \<lparr>matches = ([] :: geom match list), total_relevant_count = 0\<rparr>)
       = Inl ZeroDivisionError"
proof -
  let ?res = "analyse_layer rect_lib (Rect (- 40) (- 40) 180 60) ex_obs (buffered rect_lib ex_obs) ex_layer"
  let ?none = "\<lparr>matches = ([] :: geom match list), total_relevant_count = 0\<rparr>"
  have t: "total_relevant_count ?res = 3"
    by (simp add: analyse_layer_def Let_def ex_relevant) (simp add: ex_layer_def)
  have c: "card (index_right ` set (matches ?res)) = 2"
    unfolding ex_matches by (simp add: ex_inside_def ex_near_def)
  have z: "total_relevant_count ?none = 0" by simp
  from coverage_percentage [of ?res] t c
  have "\<exists>r. describe_layer (Some ?res) = Inr r
          \<and> affected_areas r = 2 \<and> total_relevant r = 3 \<and> andel_omraden r = 200 / 3"
    by simp
  moreover from coverage_percentage [of ?none] z
  have "describe_layer (Some ?none) = Inl ZeroDivisionError" by blast
  ultimately show ?thesis using t z by simp
qed

theorem coverage_division_unguarded_counterexample:
  "total_relevant_count (analyse_layer rect_lib (Rect (- 40) (- 40) 180 60) ex_obs
                           (buffered rect_lib ex_obs) (ex_layer\<lparr>grows := []\<rparr>)) = 0
   \<and> describe_layer (Some (analyse_layer rect_lib (Rect (- 40) (- 40) 180 60) ex_obs
                           (buffered rect_lib ex_obs) (ex_layer\<lparr>grows := []\<rparr>)))
     = Inl ZeroDivisionError"
  by (simp add: describe_layer_def analyse_layer_def relevant_logging_def Let_def)


lemma filter_on_time_id:
  assumes "date_col_of key \<in> set (columns c) \<Longrightarrow>
             \<forall>r \<in> set (grows c). year_ok y (get_cell (attrs r) (date_col_of key))"
  shows "filter_on_time lib key y c = (c, [])"
  by (simp add: filter_on_time_def Let_def year_filter_id [OF assms])

lemma columns_year_filter: "columns (year_filter lib dc y g) = columns g"
  by (simp add: year_filter_def)

lemma filter_on_time_idem:
  "filter_on_time lib key y (fst (filter_on_time lib key y c)) = (fst (filter_on_time lib key y c), [])"
proof (rule filter_on_time_id)
  assume "date_col_of key \<in> set (columns (fst (filter_on_time lib key y c)))"
  then have f: "fst (filter_on_time lib key y c) = year_filter lib (date_col_of key) y c"
    by (auto simp: filter_on_time_def Let_def columns_year_filter split: if_splits)
  show "\<forall>r \<in> set (grows (fst (filter_on_time lib key y c))).
          year_ok y (get_cell (attrs r) (date_col_of key))"
    unfolding f by (simp add: year_filter_def)
qed

lemma ex_fresh:
  "list_all2 (\<lambda>(key, fn) c. \<exists>p. map_of (cache_layers get_config) key = Some p
                                  \<and> parquet ex_world_fresh p = Some c)
     (layers get_config) [ex_layer\<lparr>grows := tl (grows ex_layer)\<rparr>, ex_anmald_2021]"
  by (simp add: get_config_def ex_world_fresh_def)

lemma ex_fresh_ok:
  "\<forall>(l, c) \<in> set (zip (layers get_config) [ex_layer\<lparr>grows := tl (grows ex_layer)\<rparr>, ex_anmald_2021]).
     date_col_of (fst l) \<in> set (columns c) \<longrightarrow>
     (\<forall>r \<in> set (grows c). year_ok 2021 (get_cell (attrs r) (date_col_of (fst l))))"
  by (simp add: get_config_def ex_layer_def ex_anmald_2021_def ex_anmald_def date_col_of_def
      year_ok_def get_cell_def)



lemma ex_filter_utford:
  "filter_on_time rect_lib ''utford'' 2021 ex_layer =
     (ex_layer\<lparr>grows := tl (grows ex_layer)\<rparr>, [RemovedOld 1 ''utford'' 2021])"
  by (simp add: filter_on_time_def year_filter_def date_col_of_def ex_layer_def Let_def
      get_cell_def upd_cell_def to_datetime_def year_ok_def)

lemma ex_filter_anmald:
  "filter_on_time rect_lib ''anmald'' 2021 ex_anmald =
     (ex_anmald_2021, [RemovedOld 1 ''anmald'' 2021])"
  by (simp add: filter_on_time_def year_filter_def date_col_of_def ex_anmald_2021_def
      ex_anmald_def Let_def get_cell_def upd_cell_def to_datetime_def year_ok_def rect_lib_def
      rect_parse_datetime_def digit_of_def)

lemma ex_cached:
  "list_all2 (\<lambda>(key, fn) c. \<exists>p. map_of (cache_layers get_config) key = Some p
                                  \<and> parquet ex_world_cached p = Some c)
     (layers get_config) [ex_layer, ex_anmald]"
  by (simp add: get_config_def ex_world_cached_def)

lemma concat_singletons:
  "length xs = length ys \<Longrightarrow>
     concat (map2 (\<lambda>(key, fn) c. [f key]) xs ys) = map (\<lambda>(key, fn). f key) xs"
  by (induction xs ys rule: list_induct2) auto

lemma ex_load_cached:
  "load_filtered_logging rect_lib get_config bb 2021 ex_world_cached =
       Inr ([(''utford'', ex_layer\<lparr>grows := tl (grows ex_layer)\<rparr>),
             (''anmald'', ex_anmald_2021)],
            ex_world_cached,
            [CacheLoadLayer ''utford'', RemovedOld 1 ''utford'' 2021,
             CacheLoadLayer ''anmald'', RemovedOld 1 ''anmald'' 2021])"
proof -
  have l: "layers get_config = [(''utford'', ''sksUtfordAvverk.gpkg''), (''anmald'', ''sksAvverkAnm.gpkg'')]"
    by (simp add: get_config_def)
  have "load_filtered_logging rect_lib get_config bb 2021 ex_world_cached =
      Inr (map2 (\<lambda>(key, fn) c. (key, fst (filter_on_time rect_lib key 2021 c)))
             (layers get_config) [ex_layer, ex_anmald], ex_world_cached,
           concat (map2 (\<lambda>(key, fn) c. CacheLoadLayer key # snd (filter_on_time rect_lib key 2021 c))
                     (layers get_config) [ex_layer, ex_anmald]))"
    unfolding load_filtered_logging_def using ex_cached by (rule load_layers_cached)
  then show ?thesis
    unfolding l by (simp add: ex_filter_utford ex_filter_anmald)
qed

lemma all_cached_layers_refiltered:
  assumes "list_all2 (\<lambda>(key, fn) c. \<exists>p. map_of (cache_layers cfg) key = Some p \<and> parquet w p = Some c)
             (layers cfg) caches"
  shows "load_filtered_logging lib cfg bb y w =
           Inr (map2 (\<lambda>(key, fn) c. (key, fst (filter_on_time lib key y c))) (layers cfg) caches, w,
                concat (map2 (\<lambda>(key, fn) c. CacheLoadLayer key # snd (filter_on_time lib key y c))
                          (layers cfg) caches))
       \<and> ((\<forall>(l, c) \<in> set (zip (layers cfg) caches).
              date_col_of (fst l) \<in> set (columns c) \<longrightarrow>
              (\<forall>r \<in> set (grows c). year_ok y (get_cell (attrs r) (date_col_of (fst l)))))
            \<longrightarrow> load_filtered_logging lib cfg bb y w =
                  Inr (map2 (\<lambda>(key, fn) c. (key, c)) (layers cfg) caches, w,
                       map (\<lambda>(key, fn). CacheLoadLayer key) (layers cfg)))"
proof
  show first: "load_filtered_logging lib cfg bb y w =
           Inr (map2 (\<lambda>(key, fn) c. (key, fst (filter_on_time lib key y c))) (layers cfg) caches, w,
                concat (map2 (\<lambda>(key, fn) c. CacheLoadLayer key # snd (filter_on_time lib key y c))
                          (layers cfg) caches))"
    unfolding load_filtered_logging_def using assms by (rule load_layers_cached)
  show "(\<forall>(l, c) \<in> set (zip (layers cfg) caches).
              date_col_of (fst l) \<in> set (columns c) \<longrightarrow>
              (\<forall>r \<in> set (grows c). year_ok y (get_cell (attrs r) (date_col_of (fst l)))))
            \<longrightarrow> load_filtered_logging lib cfg bb y w =
                  Inr (map2 (\<lambda>(key, fn) c. (key, c)) (layers cfg) caches, w,
                       map (\<lambda>(key, fn). CacheLoadLayer key) (layers cfg))"
  proof
    assume ok: "\<forall>(l, c) \<in> set (zip (layers cfg) caches).
              date_col_of (fst l) \<in> set (columns c) \<longrightarrow>
              (\<forall>r \<in> set (grows c). year_ok y (get_cell (attrs r) (date_col_of (fst l))))"
    have id: "filter_on_time lib (fst l) y c = (c, [])" if "(l, c) \<in> set (zip (layers cfg) caches)" for l c
      using ok that by (intro filter_on_time_id) auto
    have len: "length (layers cfg) = length caches"
      using assms by (rule list_all2_lengthD)
    have a: "map2 (\<lambda>(key, fn) c. (key, fst (filter_on_time lib key y c))) (layers cfg) caches
             = map2 (\<lambda>(key, fn) c. (key, c)) (layers cfg) caches"
      using id by (intro map_cong refl) (auto simp: case_prod_unfold)
    have "concat (map2 (\<lambda>(key, fn) c. CacheLoadLayer key # snd (filter_on_time lib key y c))
                          (layers cfg) caches)
          = concat (map2 (\<lambda>(key, fn) c. [CacheLoadLayer key]) (layers cfg) caches)"
      using id by (intro arg_cong [where f = concat] map_cong refl) (auto simp: case_prod_unfold)
    also have "\<dots> = map (\<lambda>(key, fn). CacheLoadLayer key) (layers cfg)"
      using len by (rule concat_singletons)
    finally show "load_filtered_logging lib cfg bb y w =
                  Inr (map2 (\<lambda>(key, fn) c. (key, c)) (layers cfg) caches, w,
                       map (\<lambda>(key, fn). CacheLoadLayer key) (layers cfg))"
      using first a by simp
  qed
qed

lemma fst_filter_on_time:
  "fst (filter_on_time lib key y c) =
     (if date_col_of key \<in> set (columns c) then year_filter lib (date_col_of key) y c else c)"
  by (simp add: filter_on_time_def Let_def)

lemma load_layer_keeps_cache:
  assumes "load_layer lib cfg bb y k fn w = Inr (g, w1, out)" and "parquet w p = Some c"
  shows "parquet w1 p = Some c"
  using assms
  by (auto simp: load_layer_def Let_def split: option.splits sum.splits prod.splits if_splits)

lemma load_layers_keeps_cache:
  assumes "load_layers lib cfg bb y ls w = Inr (d, w', out)" and "parquet w p = Some c"
  shows "parquet w' p = Some c \<and> map fst d = map fst ls"
  using assms
proof (induction ls arbitrary: w d out w')
  case Nil
  then show ?case by simp
next
  case (Cons l ls)
  obtain k fn where l: "l = (k, fn)" by (cases l)
  from Cons.prems(1) l obtain g w1 out1 d2 out2 where
    step: "load_layer lib cfg bb y k fn w = Inr (g, w1, out1)"
    and rest: "load_layers lib cfg bb y ls w1 = Inr (d2, w', out2)"
    and d: "d = (k, g) # d2"
    by (auto split: sum.splits)
  from load_layer_keeps_cache [OF step Cons.prems(2)] have "parquet w1 p = Some c" .
  from Cons.IH [OF rest this] d l show ?case by simp
qed

lemma load_layers_cached_member:
  assumes "load_layers lib cfg bb y ls w = Inr (d, w', out)" and "(key, fn) \<in> set ls"
    and "map_of (cache_layers cfg) key = Some p" and "parquet w p = Some c"
  shows "(key, fst (filter_on_time lib key y c)) \<in> set d"
  using assms
proof (induction ls arbitrary: w d out w')
  case Nil
  then show ?case by simp
next
  case (Cons l ls)
  obtain k f where l: "l = (k, f)" by (cases l)
  from Cons.prems(1) l obtain g w1 out1 d2 out2 where
    step: "load_layer lib cfg bb y k f w = Inr (g, w1, out1)"
    and rest: "load_layers lib cfg bb y ls w1 = Inr (d2, w', out2)"
    and d: "d = (k, g) # d2"
    by (auto split: sum.splits)
  from load_layer_keeps_cache [OF step Cons.prems(4)] have w1: "parquet w1 p = Some c" .
  from Cons.prems(2) l have "(key, fn) = (k, f) \<or> (key, fn) \<in> set ls" by simp
  then show ?case
  proof
    assume "(key, fn) = (k, f)"
    with step load_layer_cached [OF Cons.prems(3,4), of lib bb y f] d show ?thesis by simp
  next
    assume "(key, fn) \<in> set ls"
    from Cons.IH [OF rest this Cons.prems(3) w1] d show ?thesis by simp
  qed
qed

lemma ex_read_utford:
  "read_layer rect_lib get_config (0, 0, 200, 200) ''sksUtfordAvverk.gpkg'' ex_world_mixed = Inr ex_layer"
  by (simp add: read_layer_def ex_world_mixed_def ex_world_def Let_def)
     (simp add: ex_layer_def rect_lib_def rect_intersects_def get_config_def reset_index_def)

lemma ex_load_mixed:
  "load_filtered_logging rect_lib get_config (0, 0, 200, 200) 2021 ex_world_mixed =
     Inr ([(''utford'', ex_layer\<lparr>grows := tl (grows ex_layer)\<rparr>), (''anmald'', ex_anmald_2021)],
          ex_world_mixed\<lparr>parquet := (parquet ex_world_mixed)
                           (''utford_cache.parquet'' \<mapsto> ex_layer\<lparr>grows := tl (grows ex_layer)\<rparr>)\<rparr>,
          [FilteringBBox ''sksUtfordAvverk.gpkg'', RemovedOld 1 ''utford'' 2021,
           CacheLoadLayer ''anmald'', RemovedOld 1 ''anmald'' 2021])"
proof -
  have l: "layers get_config = [(''utford'', ''sksUtfordAvverk.gpkg''), (''anmald'', ''sksAvverkAnm.gpkg'')]"
    and cl: "cache_layers get_config = [(''utford'', ''utford_cache.parquet''), (''anmald'', ''anmald_cache.parquet'')]"
    by (simp_all add: get_config_def)
  have w: "parquet ex_world_mixed ''utford_cache.parquet'' = None"
    "\<not> write_fails ex_world_mixed ''utford_cache.parquet''"
    by (simp_all add: ex_world_mixed_def ex_world_def)
  have u: "load_layer rect_lib get_config (0, 0, 200, 200) 2021 ''utford'' ''sksUtfordAvverk.gpkg'' ex_world_mixed
      = Inr (ex_layer\<lparr>grows := tl (grows ex_layer)\<rparr>,
             ex_world_mixed\<lparr>parquet := (parquet ex_world_mixed)
                           (''utford_cache.parquet'' \<mapsto> ex_layer\<lparr>grows := tl (grows ex_layer)\<rparr>)\<rparr>,
             [FilteringBBox ''sksUtfordAvverk.gpkg'', RemovedOld 1 ''utford'' 2021])"
    by (simp add: load_layer_def cl fetch_layer_def w ex_read_utford ex_filter_utford)
  have a: "load_layer rect_lib get_config (0, 0, 200, 200) 2021 ''anmald'' ''sksAvverkAnm.gpkg''
         (ex_world_mixed\<lparr>parquet := (parquet ex_world_mixed)
                           (''utford_cache.parquet'' \<mapsto> ex_layer\<lparr>grows := tl (grows ex_layer)\<rparr>)\<rparr>)
      = Inr (ex_anmald_2021,
             ex_world_mixed\<lparr>parquet := (parquet ex_world_mixed)
                           (''utford_cache.parquet'' \<mapsto> ex_layer\<lparr>grows := tl (grows ex_layer)\<rparr>)\<rparr>,
             [CacheLoadLayer ''anmald'', RemovedOld 1 ''anmald'' 2021])"
    by (simp add: load_layer_def cl fetch_layer_def ex_filter_anmald ex_world_mixed_def)
  show ?thesis
    unfolding load_filtered_logging_def l by (simp add: u a)
qed

lemma ex_load_fresh:
  "load_filtered_logging rect_lib get_config (0, 0, 200, 200) 2021 ex_world_fresh =
     Inr ([(''utford'', ex_layer\<lparr>grows := tl (grows ex_layer)\<rparr>), (''anmald'', ex_anmald_2021)],
          ex_world_fresh, [CacheLoadLayer ''utford'', CacheLoadLayer ''anmald''])"
proof -
  have l: "layers get_config = [(''utford'', ''sksUtfordAvverk.gpkg''), (''anmald'', ''sksAvverkAnm.gpkg'')]"
    by (simp add: get_config_def)
  from all_cached_layers_refiltered [OF ex_fresh, of rect_lib "(0, 0, 200, 200)" 2021] ex_fresh_ok
  have "load_filtered_logging rect_lib get_config (0, 0, 200, 200) 2021 ex_world_fresh =
      Inr (map2 (\<lambda>(key, fn) c. (key, c)) (layers get_config)
             [ex_layer\<lparr>grows := tl (grows ex_layer)\<rparr>, ex_anmald_2021], ex_world_fresh,
           map (\<lambda>(key, fn). CacheLoadLayer key) (layers get_config))"
    by blast
  then show ?thesis unfolding l by simp
qed

lemma ex_load_mixed_again:
  "load_filtered_logging rect_lib get_config (130, 10, 130, 10) 2021
     (ex_world_mixed\<lparr>parquet := (parquet ex_world_mixed)
                           (''utford_cache.parquet'' \<mapsto> ex_layer\<lparr>grows := tl (grows ex_layer)\<rparr>)\<rparr>) =
     Inr ([(''utford'', ex_layer\<lparr>grows := tl (grows ex_layer)\<rparr>), (''anmald'', ex_anmald_2021)],
          ex_world_mixed\<lparr>parquet := (parquet ex_world_mixed)
                           (''utford_cache.parquet'' \<mapsto> ex_layer\<lparr>grows := tl (grows ex_layer)\<rparr>)\<rparr>,
          [CacheLoadLayer ''utford'', CacheLoadLayer ''anmald'', RemovedOld 1 ''anmald'' 2021])"
proof -
  let ?w = "ex_world_mixed\<lparr>parquet := (parquet ex_world_mixed)
                           (''utford_cache.parquet'' \<mapsto> ex_layer\<lparr>grows := tl (grows ex_layer)\<rparr>)\<rparr>"
  have l: "layers get_config = [(''utford'', ''sksUtfordAvverk.gpkg''), (''anmald'', ''sksAvverkAnm.gpkg'')]"
    by (simp add: get_config_def)
  have la: "list_all2 (\<lambda>(key, fn) c. \<exists>p. map_of (cache_layers get_config) key = Some p
                                  \<and> parquet ?w p = Some c)
     (layers get_config) [ex_layer\<lparr>grows := tl (grows ex_layer)\<rparr>, ex_anmald]"
    by (simp add: get_config_def ex_world_mixed_def)
  have u: "filter_on_time rect_lib ''utford'' 2021 (ex_layer\<lparr>grows := tl (grows ex_layer)\<rparr>)
             = (ex_layer\<lparr>grows := tl (grows ex_layer)\<rparr>, [])"
    by (rule filter_on_time_id)
       (simp add: ex_layer_def date_col_of_def year_ok_def get_cell_def)
  have "load_filtered_logging rect_lib get_config (130, 10, 130, 10) 2021 ?w =
      Inr (map2 (\<lambda>(key, fn) c. (key, fst (filter_on_time rect_lib key 2021 c)))
             (layers get_config) [ex_layer\<lparr>grows := tl (grows ex_layer)\<rparr>, ex_anmald], ?w,
           concat (map2 (\<lambda>(key, fn) c. CacheLoadLayer key # snd (filter_on_time rect_lib key 2021 c))
                     (layers get_config) [ex_layer\<lparr>grows := tl (grows ex_layer)\<rparr>, ex_anmald]))"
    unfolding load_filtered_logging_def using la by (rule load_layers_cached)
  then show ?thesis
    unfolding l by (simp add: u ex_filter_anmald)
qed


text \<open>
  Claim C4, as amended. For every layer whose cache file exists, whether or not the
  other layers have one, the layer loader returns the cached collection without applying
  the bounding box and without writing that cache, but with the filter on time applied
  again: where the cached collection has the date column, its dates are coerced and the
  rows of a year before the start year, or without a date, are left out. The returned
  layer is the cached collection itself when every cached row already has a timestamp
  of such a year. The cache file is as before, so a second run with the same start year
  returns the same layer.
\<close>

theorem cached_layer_refiltered:
  assumes run: "load_filtered_logging lib cfg bb y w = Inr (d, w', out)"
    and key: "(key, fn) \<in> set (layers cfg)" and dist: "distinct (map fst (layers cfg))"
    and p: "map_of (cache_layers cfg) key = Some p" and c: "parquet w p = Some c"
  shows "map_of d key =
           Some (if date_col_of key \<in> set (columns c)
                 then year_filter lib (date_col_of key) y c else c)
       \<and> parquet w' p = Some c
       \<and> ((date_col_of key \<in> set (columns c) \<longrightarrow>
             (\<forall>r \<in> set (grows c). year_ok y (get_cell (attrs r) (date_col_of key))))
            \<longrightarrow> map_of d key = Some c)
       \<and> (\<forall>bb2 d2 w2 out2. load_filtered_logging lib cfg bb2 y w' = Inr (d2, w2, out2)
            \<longrightarrow> map_of d2 key = map_of d key)"
proof -
  let ?g = "fst (filter_on_time lib key y c)"
  have member: "map_of d0 key = Some ?g \<and> parquet w1 p = Some c"
    if r: "load_filtered_logging lib cfg bb0 y w0 = Inr (d0, w1, out0)" and c0: "parquet w0 p = Some c"
    for bb0 w0 d0 w1 out0
  proof -
    from r have r': "load_layers lib cfg bb0 y (layers cfg) w0 = Inr (d0, w1, out0)"
      by (simp add: load_filtered_logging_def)
    from load_layers_keeps_cache [OF r' c0] have k: "parquet w1 p = Some c" "map fst d0 = map fst (layers cfg)"
      by simp_all
    with dist have "distinct (map fst d0)" by simp
    with load_layers_cached_member [OF r' key p c0] have "map_of d0 key = Some ?g" by simp
    with k show ?thesis by simp
  qed
  from member [OF run c] have first: "map_of d key = Some ?g" and w': "parquet w' p = Some c"
    by simp_all
  have asis: "map_of d key = Some c"
    if "date_col_of key \<in> set (columns c) \<longrightarrow>
             (\<forall>r \<in> set (grows c). year_ok y (get_cell (attrs r) (date_col_of key)))"
    using first filter_on_time_id [of key c y lib] that by simp
  have again: "map_of d2 key = map_of d key"
    if "load_filtered_logging lib cfg bb2 y w' = Inr (d2, w2, out2)" for bb2 d2 w2 out2
    using member [OF that w'] first by simp
  from first w' asis again show ?thesis
    unfolding fst_filter_on_time by blast
qed

theorem cached_layer_refiltered_witness:
  "load_filtered_logging rect_lib get_config (0, 0, 200, 200) 2021 ex_world_mixed =
     Inr ([(''utford'', ex_layer\<lparr>grows := tl (grows ex_layer)\<rparr>), (''anmald'', ex_anmald_2021)],
          ex_world_mixed\<lparr>parquet := (parquet ex_world_mixed)
                           (''utford_cache.parquet'' \<mapsto> ex_layer\<lparr>grows := tl (grows ex_layer)\<rparr>)\<rparr>,
          [FilteringBBox ''sksUtfordAvverk.gpkg'', RemovedOld 1 ''utford'' 2021,
           CacheLoadLayer ''anmald'', RemovedOld 1 ''anmald'' 2021])
   \<and> (''anmald'', ''sksAvverkAnm.gpkg'') \<in> set (layers get_config)
   \<and> distinct (map fst (layers get_config))
   \<and> map_of (cache_layers get_config) ''anmald'' = Some ''anmald_cache.parquet''
   \<and> parquet ex_world_mixed ''anmald_cache.parquet'' = Some ex_anmald
   \<and> parquet ex_world_mixed ''utford_cache.parquet'' = None
   \<and> year_filter rect_lib (date_col_of ''anmald'') 2021 ex_anmald = ex_anmald_2021
   \<and> parquet (ex_world_mixed\<lparr>parquet := (parquet ex_world_mixed)
                           (''utford_cache.parquet'' \<mapsto> ex_layer\<lparr>grows := tl (grows ex_layer)\<rparr>)\<rparr>)
        ''anmald_cache.parquet'' = Some ex_anmald
   \<and> load_filtered_logging rect_lib get_config (0, 0, 200, 200) 2021 ex_world_fresh =
       Inr ([(''utford'', ex_layer\<lparr>grows := tl (grows ex_layer)\<rparr>), (''anmald'', ex_anmald_2021)],
            ex_world_fresh, [CacheLoadLayer ''utford'', CacheLoadLayer ''anmald''])
   \<and> parquet ex_world_fresh ''anmald_cache.parquet'' = Some ex_anmald_2021
   \<and> map_of [(''utford'', ex_layer\<lparr>grows := tl (grows ex_layer)\<rparr>), (''anmald'', ex_anmald_2021)] ''anmald''
       = Some ex_anmald_2021
   \<and> load_filtered_logging rect_lib get_config (130, 10, 130, 10) 2021
        (ex_world_mixed\<lparr>parquet := (parquet ex_world_mixed)
                           (''utford_cache.parquet'' \<mapsto> ex_layer\<lparr>grows := tl (grows ex_layer)\<rparr>)\<rparr>) =
       Inr ([(''utford'', ex_layer\<lparr>grows := tl (grows ex_layer)\<rparr>), (''anmald'', ex_anmald_2021)],
            ex_world_mixed\<lparr>parquet := (parquet ex_world_mixed)
                           (''utford_cache.parquet'' \<mapsto> ex_layer\<lparr>grows := tl (grows ex_layer)\<rparr>)\<rparr>,
            [CacheLoadLayer ''utford'', CacheLoadLayer ''anmald'', RemovedOld 1 ''anmald'' 2021])"
proof -
  have k: "(''anmald'', ''sksAvverkAnm.gpkg'') \<in> set (layers get_config)"
    and di: "distinct (map fst (layers get_config))"
    and p: "map_of (cache_layers get_config) ''anmald'' = Some ''anmald_cache.parquet''"
    by (simp_all add: get_config_def)
  have c: "parquet ex_world_mixed ''anmald_cache.parquet'' = Some ex_anmald"
    and n: "parquet ex_world_mixed ''utford_cache.parquet'' = None"
    and cf: "parquet ex_world_fresh ''anmald_cache.parquet'' = Some ex_anmald_2021"
    by (simp_all add: ex_world_mixed_def ex_world_def ex_world_fresh_def)
  have col: "date_col_of ''anmald'' \<in> set (columns ex_anmald)"
    by (simp add: date_col_of_def ex_anmald_def)
  have ok: "date_col_of ''anmald'' \<in> set (columns ex_anmald_2021) \<longrightarrow>
      (\<forall>r \<in> set (grows ex_anmald_2021). year_ok 2021 (get_cell (attrs r) (date_col_of ''anmald'')))"
    by (simp add: ex_anmald_2021_def date_col_of_def year_ok_def get_cell_def)
  from cached_layer_refiltered [OF ex_load_mixed k di p c] col
  have m: "map_of [(''utford'', ex_layer\<lparr>grows := tl (grows ex_layer)\<rparr>), (''anmald'', ex_anmald_2021)] ''anmald''
        = Some (year_filter rect_lib (date_col_of ''anmald'') 2021 ex_anmald)"
    and w': "parquet (ex_world_mixed\<lparr>parquet := (parquet ex_world_mixed)
                           (''utford_cache.parquet'' \<mapsto> ex_layer\<lparr>grows := tl (grows ex_layer)\<rparr>)\<rparr>)
        ''anmald_cache.parquet'' = Some ex_anmald"
    by simp_all
  from m have y: "year_filter rect_lib (date_col_of ''anmald'') 2021 ex_anmald = ex_anmald_2021"
    by simp
  from cached_layer_refiltered [OF ex_load_fresh k di p cf] ok
  have f: "map_of [(''utford'', ex_layer\<lparr>grows := tl (grows ex_layer)\<rparr>), (''anmald'', ex_anmald_2021)] ''anmald''
        = Some ex_anmald_2021"
    by blast
  from ex_load_mixed k di p c n y w' ex_load_fresh cf f ex_load_mixed_again show ?thesis
    by (intro conjI)
qed

theorem cached_layer_refiltered_counterexample:
  "parquet ex_world_cached ''utford_cache.parquet'' = Some ex_layer
   \<and> map_sum id fst (load_filtered_logging rect_lib get_config (0, 0, 200, 200) 2021 ex_world_cached) =
       Inr [(''utford'', ex_layer\<lparr>grows := tl (grows ex_layer)\<rparr>),
            (''anmald'', ex_anmald_2021)]
   \<and> ex_layer\<lparr>grows := tl (grows ex_layer)\<rparr> \<noteq> ex_layer"
proof -
  have "ex_layer\<lparr>grows := tl (grows ex_layer)\<rparr> \<noteq> ex_layer"
    by (simp add: ex_layer_def)
  moreover have "parquet ex_world_cached ''utford_cache.parquet'' = Some ex_layer"
    by (simp add: ex_world_cached_def)
  ultimately show ?thesis by (simp add: ex_load_cached)
qed




lemma main_from_defined: "main_from lib cfg gdf_obs w \<noteq> None"
  by (auto simp: main_from_def run_spatial_analysis_def Let_def
      split: sum.splits option.splits prod.splits)

lemma load_layers_member:
  assumes "load_layers lib cfg bb y ls w = Inr (d, w', out)" and "(key, gdf) \<in> set d"
  shows "\<exists>fn w0 w1 out1. (key, fn) \<in> set ls \<and> load_layer lib cfg bb y key fn w0 = Inr (gdf, w1, out1)"
  using assms
proof (induction ls arbitrary: w d out w')
  case Nil
  then show ?case by simp
next
  case (Cons l ls)
  obtain k fn where l: "l = (k, fn)" by (cases l)
  from Cons.prems(1) l obtain g w1 out1 d2 w2 out2 where
    step: "load_layer lib cfg bb y k fn w = Inr (g, w1, out1)"
    and rest: "load_layers lib cfg bb y ls w1 = Inr (d2, w2, out2)"
    and d: "d = (k, g) # d2"
    by (auto split: sum.splits)
  from Cons.prems(2) d have "(key, gdf) = (k, g) \<or> (key, gdf) \<in> set d2" by simp
  then show ?case
  proof
    assume "(key, gdf) = (k, g)"
    with step l show ?thesis by auto
  next
    assume "(key, gdf) \<in> set d2"
    from Cons.IH [OF rest this] show ?thesis by auto
  qed
qed

lemma ex_start_year: "start_year_of rect_lib ex_gdf = Inr 2021"
  by (simp add: start_year_of_def stamps_of_def year_range_def ex_gdf_def get_cell_def
      to_datetime_def List.map_filter_def)

lemma ex_bounds: "total_bounds rect_lib (map geometry (grows ex_gdf)) = (130, 10, 130, 10)"
  by (simp add: rect_lib_def rect_bounds_def rect_join_def ex_gdf_def)

lemma ex_readonly_observations:
  "load_observations rect_lib get_config ex_world_readonly =
     Inr (ex_gdf, ex_world_readonly, [ReadingExcel, ReadingFile ''fynd.xlsx'', CacheWarning])"
  unfolding ex_world_readonly_def using ex_load_observations [of "\<lambda>p. True"] by simp

lemma ex_readonly_layers:
  "load_filtered_logging rect_lib get_config (130, 10, 130, 10) 2021 ex_world_readonly =
     Inl (WriteError ''utford_cache.parquet'')"
proof -
  have p: "map_of (cache_layers get_config) ''utford'' = Some ''utford_cache.parquet''"
    by (simp add: get_config_def)
  have c: "parquet ex_world_readonly ''utford_cache.parquet'' = None"
    "write_fails ex_world_readonly ''utford_cache.parquet''"
    by (simp_all add: ex_world_readonly_def ex_world_def)
  have f: "fetch_layer rect_lib get_config (130, 10, 130, 10) ''utford'' ''sksUtfordAvverk.gpkg''
             ''utford_cache.parquet'' ex_world_readonly
           = Inr (ex_layer\<lparr>grows := []\<rparr>, [FilteringBBox ''sksUtfordAvverk.gpkg''])"
    by (simp add: fetch_layer_def read_layer_def ex_world_readonly_def ex_world_def Let_def)
       (simp add: ex_layer_def rect_lib_def rect_intersects_def get_config_def reset_index_def)
  have "load_layer rect_lib get_config (130, 10, 130, 10) 2021 ''utford'' ''sksUtfordAvverk.gpkg''
          ex_world_readonly = Inl (WriteError ''utford_cache.parquet'')"
    using p c f by (rule load_layer_write_failure)
  then show ?thesis
    by (simp add: load_filtered_logging_def get_config_def)
qed

text \<open>
  Claim C7. A failure to write the observation cache is caught: the observation loader
  prints a warning and returns its frame. A failure to write a layer cache is not
  caught: where no cache can be written, the layer loader ends with the write error, and
  so does the run.
\<close>

theorem layer_cache_write_failure_is_fatal:
  "load_observations rect_lib get_config ex_world_readonly =
     Inr (ex_gdf, ex_world_readonly, [ReadingExcel, ReadingFile ''fynd.xlsx'', CacheWarning])
   \<and> load_filtered_logging rect_lib get_config (130, 10, 130, 10) 2021 ex_world_readonly =
       Inl (WriteError ''utford_cache.parquet'')
   \<and> main rect_lib ex_world_readonly = Some (Inl (WriteError ''utford_cache.parquet''))"
proof -
  have "main rect_lib ex_world_readonly = Some (Inl (WriteError ''utford_cache.parquet''))"
    by (simp add: main_def main_from_def ex_readonly_observations ex_start_year ex_bounds
        ex_readonly_layers Let_def)
  with ex_readonly_observations ex_readonly_layers show ?thesis by simp
qed

text \<open>
  Claim C8. For a layer that has its date column, whether read from the cache or from
  the source, the loader returns without an exception whatever the date values are (as
  long as a cache that has to be written can be written), and the rows it returns are
  the rows whose coerced date is a timestamp of a year from the start year on: a row
  whose date does not parse is coerced to the missing value and is not returned.
\<close>

theorem unparseable_dates_excluded:
  assumes p: "map_of (cache_layers cfg) key = Some p"
    and fetch: "fetch_layer lib cfg bb key fn p w = Inr (gdf0, out0)"
    and col: "date_col_of key \<in> set (columns gdf0)"
    and wr: "parquet w p \<noteq> None \<or> \<not> write_fails w p"
  shows "\<exists>gdf w' out. load_layer lib cfg bb y key fn w = Inr (gdf, w', out)
           \<and> grows gdf =
               map (\<lambda>r. r\<lparr>attrs := upd_cell (date_col_of key) (to_datetime lib) (attrs r)\<rparr>)
                 (filter (\<lambda>r. \<exists>t. to_datetime lib (get_cell (attrs r) (date_col_of key)) = Stamp t
                                \<and> y \<le> year t) (grows gdf0))
           \<and> (\<forall>r \<in> set (grows gdf). \<exists>t. get_cell (attrs r) (date_col_of key) = Stamp t \<and> y \<le> year t)"
proof -
  let ?gdf = "year_filter lib (date_col_of key) y gdf0"
  from col have f: "fst (filter_on_time lib key y gdf0) = ?gdf"
    by (simp add: filter_on_time_def Let_def)
  from p fetch wr f have "\<exists>w' out. load_layer lib cfg bb y key fn w = Inr (?gdf, w', out)"
    by (auto simp: load_layer_def Let_def split: prod.splits)
  moreover have "\<forall>r \<in> set (grows ?gdf). \<exists>t. get_cell (attrs r) (date_col_of key) = Stamp t \<and> y \<le> year t"
    by (auto simp: year_filter_def year_ok_iff)
  ultimately show ?thesis using year_filter_rows [of lib "date_col_of key" y gdf0] by blast
qed

theorem unparseable_dates_excluded_witness:
  "map_of (cache_layers get_config) ''anmald'' = Some ''anmald_cache.parquet''
   \<and> fetch_layer rect_lib get_config (0, 0, 200, 200) ''anmald'' ''sksAvverkAnm.gpkg''
        ''anmald_cache.parquet'' ex_world_cached = Inr (ex_anmald, [CacheLoadLayer ''anmald''])
   \<and> date_col_of ''anmald'' \<in> set (columns ex_anmald)
   \<and> parquet ex_world_cached ''anmald_cache.parquet'' \<noteq> None
   \<and> to_datetime rect_lib (get_cell (attrs (grows ex_anmald ! 1)) (date_col_of ''anmald'')) = NaN
   \<and> (\<exists>gdf w' out. load_layer rect_lib get_config (0, 0, 200, 200) 2021 ''anmald''
                       ''sksAvverkAnm.gpkg'' ex_world_cached = Inr (gdf, w', out)
          \<and> grows gdf = [\<lparr>idx = 0, attrs = [(''Inkomdatum'', Stamp (Timestamp 2022 1 1))],
                           geometry = Rect 120 0 140 20\<rparr>])"
proof -
  have p: "map_of (cache_layers get_config) ''anmald'' = Some ''anmald_cache.parquet''"
    by (simp add: get_config_def)
  have f: "fetch_layer rect_lib get_config (0, 0, 200, 200) ''anmald'' ''sksAvverkAnm.gpkg''
        ''anmald_cache.parquet'' ex_world_cached = Inr (ex_anmald, [CacheLoadLayer ''anmald''])"
    by (simp add: fetch_layer_def ex_world_cached_def)
  have c: "date_col_of ''anmald'' \<in> set (columns ex_anmald)"
    by (simp add: date_col_of_def ex_anmald_def)
  have w: "parquet ex_world_cached ''anmald_cache.parquet'' \<noteq> None"
    by (simp add: ex_world_cached_def)
  have n: "to_datetime rect_lib (get_cell (attrs (grows ex_anmald ! 1)) (date_col_of ''anmald'')) = NaN"
    by (simp add: date_col_of_def ex_anmald_def get_cell_def to_datetime_def rect_lib_def
        rect_parse_datetime_def)
  have rows: "map (\<lambda>r. r\<lparr>attrs := upd_cell (date_col_of ''anmald'') (to_datetime rect_lib) (attrs r)\<rparr>)
                 (filter (\<lambda>r. \<exists>t. to_datetime rect_lib (get_cell (attrs r) (date_col_of ''anmald'')) = Stamp t
                                \<and> 2021 \<le> year t) (grows ex_anmald))
        = [\<lparr>idx = 0, attrs = [(''Inkomdatum'', Stamp (Timestamp 2022 1 1))],
                           geometry = Rect 120 0 140 20\<rparr>]"
    by (simp add: date_col_of_def ex_anmald_def get_cell_def upd_cell_def to_datetime_def
        rect_lib_def rect_parse_datetime_def digit_of_def)
  from unparseable_dates_excluded [OF p f c disjI1 [OF w], of 2021] rows
  have "\<exists>gdf w' out. load_layer rect_lib get_config (0, 0, 200, 200) 2021 ''anmald''
                       ''sksAvverkAnm.gpkg'' ex_world_cached = Inr (gdf, w', out)
          \<and> grows gdf = [\<lparr>idx = 0, attrs = [(''Inkomdatum'', Stamp (Timestamp 2022 1 1))],
                           geometry = Rect 120 0 140 20\<rparr>]"
    by auto
  with p f c w n show ?thesis by blast
qed

lemma ex_coarse_observations:
  "load_observations rect_lib get_config ex_world_coarse =
     Inr (ex_gdf\<lparr>grows := []\<rparr>,
          ex_world_coarse\<lparr>parquet := [''Art_cache.parquet'' \<mapsto> ex_gdf\<lparr>grows := []\<rparr>]\<rparr>,
          [ReadingExcel, ReadingFile ''fynd.xlsx'', CacheCreated 0])"
proof -
  have cf: "clean_file rect_lib get_config ex_xlsx_coarse =
     Inr \<lparr>f_columns = [''Artnamn'', ''Ost'', ''Nord'', ''Noggrannhet'', ''Startdatum'', ''Kalla''],
          f_rows = []\<rparr>"
    by (simp add: clean_file_def get_config_def ex_xlsx_coarse_def ex_xlsx_def Let_def get_cell_def
        upd_cell_def to_numeric_def accuracy_ok_def)
  have g: "to_geoframe rect_lib ''EPSG:3006''
     (normalise_text rect_lib (concat_frames
        [\<lparr>f_columns = [''Artnamn'', ''Ost'', ''Nord'', ''Noggrannhet'', ''Startdatum'', ''Kalla''],
          f_rows = []\<rparr>])) = ex_gdf\<lparr>grows := []\<rparr>"
    by (simp add: to_geoframe_def normalise_text_def concat_frames_def is_object_def
        ex_gdf_def Let_def)
  have c: "cache_obs get_config = ''Art_cache.parquet''" "cfg_crs get_config = ''EPSG:3006''"
    by (simp_all add: get_config_def)
  have w: "parquet ex_world_coarse = Map.empty" "xlsx_files ex_world_coarse = [ex_xlsx_coarse]"
    "\<not> write_fails ex_world_coarse ''Art_cache.parquet''"
    by (simp_all add: ex_world_coarse_def ex_world_def)
  have n: "fname ex_xlsx_coarse = ''fynd.xlsx''"
    by (simp add: ex_xlsx_coarse_def ex_xlsx_def)
  show ?thesis
    unfolding load_observations_def c w(1,2)
    by (simp add: cf g n w(3) Let_def)
qed

lemma buffered_empty: "grows obs = [] \<Longrightarrow> buffered lib obs = obs"
  by (simp add: buffered_def)

lemma analyse_layer_empty:
  assumes "grows obs = []"
  shows "analyse_layer lib area obs obs lg =
           \<lparr>matches = [], total_relevant_count = length (relevant_logging lib area lg)\<rparr>"
  using assms by (simp add: analyse_layer_def in_zone_def all_near_def sjoin_def Let_def)

lemma run_spatial_analysis_empty:
  assumes "grows gdf_obs = []"
  shows "run_spatial_analysis lib 0 logging_data [gdf_obs] =
           Some (map (\<lambda>(key, lg). (key, \<lparr>matches = [],
                        total_relevant_count = length (relevant_logging lib (study_area lib gdf_obs) lg)\<rparr>))
                   logging_data,
                 [gdf_obs, gdf_obs])"
  by (simp add: run_spatial_analysis_eq buffered_empty [OF assms] analyse_layer_empty [OF assms])

lemma ex_empty_relevant:
  "relevant_logging rect_lib (study_area rect_lib (ex_gdf\<lparr>grows := []\<rparr>)) ex_layer = []"
  by (simp add: relevant_logging_def study_area_def rect_lib_def rect_buffer_def
      rect_intersects_def ex_layer_def)

text \<open>
  Claim C9, as amended. When the observation loader returns an empty collection, the run
  ends with an exception in the main script, before the matcher is called and before a
  study area or any layer result is computed: the start year cannot be taken from the
  start dates (ValueError, or KeyError when the column is absent). The matcher itself
  does not check for an empty collection: called with one, it returns a result for
  every layer, without matches.
\<close>

theorem empty_observations_end_run_before_matcher:
  assumes "load_observations lib get_config w = Inr (gdf_obs, w', out)" and "grows gdf_obs = []"
  shows "main lib w = Some (Inl (if ''Startdatum'' \<in> set (columns gdf_obs)
                                 then ValueError else KeyError ''Startdatum''))
       \<and> run_spatial_analysis lib 0 logging_data [gdf_obs] =
           Some (map (\<lambda>(key, lg). (key, \<lparr>matches = [],
                        total_relevant_count = length (relevant_logging lib (study_area lib gdf_obs) lg)\<rparr>))
                   logging_data,
                 [gdf_obs, gdf_obs])"
proof
  from assms show "main lib w = Some (Inl (if ''Startdatum'' \<in> set (columns gdf_obs)
                                 then ValueError else KeyError ''Startdatum''))"
    by (simp add: main_def main_from_def start_year_of_def stamps_of_def year_range_def
        List.map_filter_def Let_def)
  from assms(2) show "run_spatial_analysis lib 0 logging_data [gdf_obs] =
           Some (map (\<lambda>(key, lg). (key, \<lparr>matches = [],
                        total_relevant_count = length (relevant_logging lib (study_area lib gdf_obs) lg)\<rparr>))
                   logging_data,
                 [gdf_obs, gdf_obs])"
    by (rule run_spatial_analysis_empty)
qed

theorem empty_observations_end_run_before_matcher_witness:
  "load_observations rect_lib get_config ex_world_coarse =
     Inr (ex_gdf\<lparr>grows := []\<rparr>,
          ex_world_coarse\<lparr>parquet := [''Art_cache.parquet'' \<mapsto> ex_gdf\<lparr>grows := []\<rparr>]\<rparr>,
          [ReadingExcel, ReadingFile ''fynd.xlsx'', CacheCreated 0])
   \<and> grows (ex_gdf\<lparr>grows := []\<rparr>) = []
   \<and> main rect_lib ex_world_coarse = Some (Inl ValueError)
   \<and> run_spatial_analysis rect_lib 0 [(''utford'', ex_layer)] [ex_gdf\<lparr>grows := []\<rparr>] =
       Some ([(''utford'', \<lparr>matches = [], total_relevant_count = 0\<rparr>)],
             [ex_gdf\<lparr>grows := []\<rparr>, ex_gdf\<lparr>grows := []\<rparr>])"
proof -
  have e: "grows (ex_gdf\<lparr>grows := []\<rparr>) = []" by simp
  have c: "''Startdatum'' \<in> set (columns (ex_gdf\<lparr>grows := []\<rparr>))" by (simp add: ex_gdf_def)
  from empty_observations_end_run_before_matcher
         [OF ex_coarse_observations e, of "[(''utford'', ex_layer)]"]
       c ex_coarse_observations ex_empty_relevant
  show ?thesis by simp
qed

theorem matcher_accepts_empty_counterexample:
  "grows (ex_gdf\<lparr>grows := []\<rparr>) = []
   \<and> run_spatial_analysis rect_lib 0 [(''utford'', ex_layer)] [ex_gdf\<lparr>grows := []\<rparr>] =
       Some ([(''utford'', \<lparr>matches = [], total_relevant_count = 0\<rparr>)],
             [ex_gdf\<lparr>grows := []\<rparr>, ex_gdf\<lparr>grows := []\<rparr>])"
proof -
  have e: "grows (ex_gdf\<lparr>grows := []\<rparr>) = []" by simp
  from run_spatial_analysis_empty [OF e, of rect_lib "[(''utford'', ex_layer)]"] ex_empty_relevant
  show ?thesis by simp
qed


end
